theory Spec2Isabelle
  imports Complex_Main "HOL-Library.Monad_Syntax"
begin

unbundle bit_operations_syntax

section \<open>The testbed example of the text editor (example\_testbed.c)\<close>

text \<open>
  The testbed feeds key, character, mouse, scroll and input-method events into an editor
  and draws the caret boundaries of every line. The editor, the input-method service, the
  clipboard and the renderer are collaborators that the testbed only calls.

  Conventions of the model:
  \<^item> every call to a collaborator is recorded, in order, in the \<open>trace\<close> of the state;
  \<^item> what a collaborator answers to a query is given by the environment \<open>env\<close>, as a
    function of the calls made so far;
  \<^item> a finite C \<open>float\<close> is the real number it denotes, and every float operation of
    the handlers rounds its exact result to single precision (to nearest, ties to even,
    one rounding for each operation); a handler that computes a float that is not finite
    (an overflow or a division by zero) returns \<open>None\<close>: the model covers the runs
    over finite floats;
  \<^item> the conversion \<open>(int32_t) f\<close> truncates toward zero and is undefined in C when the
    result does not fit 32 bits: a handler that performs such a conversion returns \<open>None\<close>;
  \<^item> the coordinates handed to the debug renderer are written as the sums of the source,
    without rounding.
\<close>

subsection \<open>Constants of the windowing library\<close>

definition GLFW_RELEASE :: int where "GLFW_RELEASE = 0"

definition GLFW_PRESS :: int where "GLFW_PRESS = 1"

definition GLFW_REPEAT :: int where "GLFW_REPEAT = 2"

definition GLFW_MOD_SHIFT :: int where "GLFW_MOD_SHIFT = 1"

definition GLFW_MOD_CONTROL :: int where "GLFW_MOD_CONTROL = 2"

definition GLFW_MOUSE_BUTTON_LEFT :: int where "GLFW_MOUSE_BUTTON_LEFT = 0"

definition GLFW_MOUSE_BUTTON_RIGHT :: int where "GLFW_MOUSE_BUTTON_RIGHT = 1"

definition GLFW_KEY_A :: int where "GLFW_KEY_A = 65"

definition GLFW_KEY_C :: int where "GLFW_KEY_C = 67"

definition GLFW_KEY_V :: int where "GLFW_KEY_V = 86"

definition GLFW_KEY_X :: int where "GLFW_KEY_X = 88"

definition GLFW_KEY_Z :: int where "GLFW_KEY_Z = 90"

definition GLFW_KEY_ESCAPE :: int where "GLFW_KEY_ESCAPE = 256"

definition GLFW_KEY_ENTER :: int where "GLFW_KEY_ENTER = 257"

definition GLFW_KEY_TAB :: int where "GLFW_KEY_TAB = 258"

definition GLFW_KEY_BACKSPACE :: int where "GLFW_KEY_BACKSPACE = 259"

definition GLFW_KEY_DELETE :: int where "GLFW_KEY_DELETE = 261"

definition GLFW_KEY_RIGHT :: int where "GLFW_KEY_RIGHT = 262"

definition GLFW_KEY_LEFT :: int where "GLFW_KEY_LEFT = 263"

definition GLFW_KEY_DOWN :: int where "GLFW_KEY_DOWN = 264"

definition GLFW_KEY_UP :: int where "GLFW_KEY_UP = 265"

definition GLFW_KEY_HOME :: int where "GLFW_KEY_HOME = 268"

definition GLFW_KEY_END :: int where "GLFW_KEY_END = 269"

definition GLFW_KEY_F7 :: int where "GLFW_KEY_F7 = 296"

definition GLFW_KEY_F8 :: int where "GLFW_KEY_F8 = 297"

definition GLFW_KEY_F9 :: int where "GLFW_KEY_F9 = 298"

definition GLFW_KEY_F10 :: int where "GLFW_KEY_F10 = 299"

subsection \<open>Single-precision arithmetic\<close>

text \<open>
  A single has 24 significant bits and exponents from \<open>-126\<close> to \<open>127\<close>; below
  \<open>2^-126\<close> the spacing stays \<open>2^-149\<close>. The exact result of an operation is rounded to
  the nearest single, a tie to the one with the even significand; a result that rounds to
  \<open>2^128\<close> or beyond is an infinity.
\<close>

definition pow2 :: "int \<Rightarrow> real" where
  "pow2 e = (if 0 \<le> e then 2 ^ nat e else 1 / 2 ^ nat (- e))"

definition f32_exponent :: "real \<Rightarrow> int" where
  "f32_exponent x = max (- 126) \<lfloor>log 2 \<bar>x\<bar>\<rfloor>"

definition round_half_even :: "real \<Rightarrow> int" where
  "round_half_even r =
     (let n = \<lfloor>r\<rfloor>; d = r - real_of_int n
      in if d < 1 / 2 then n else if 1 / 2 < d then n + 1 else if even n then n else n + 1)"

definition f32_round :: "real \<Rightarrow> real" where
  "f32_round x =
     (if x = 0 then 0
      else real_of_int (round_half_even (x / pow2 (f32_exponent x - 23)))
           * pow2 (f32_exponent x - 23))"

text \<open>The result of a float operation with the exact result \<open>x\<close>, when it is finite.\<close>

definition f32 :: "real \<Rightarrow> real option" where
  "f32 x = (if \<bar>f32_round x\<bar> < 2 ^ 128 then Some (f32_round x) else None)"

definition fadd :: "real \<Rightarrow> real \<Rightarrow> real option" where
  "fadd a b = f32 (a + b)"

definition fsub :: "real \<Rightarrow> real \<Rightarrow> real option" where
  "fsub a b = f32 (a - b)"

definition fmul :: "real \<Rightarrow> real \<Rightarrow> real option" where
  "fmul a b = f32 (a * b)"

definition fdiv :: "real \<Rightarrow> real \<Rightarrow> real option" where
  "fdiv a b = (if b = 0 then None else f32 (a / b))"

subsection \<open>Data of the editor interface\<close>

text \<open>The affinities, in the order of the table \<open>affinity_str\<close> of the testbed.\<close>

datatype skb_affinity =
  SKB_AFFINITY_NONE | SKB_AFFINITY_TRAILING | SKB_AFFINITY_LEADING
  | SKB_AFFINITY_SOL | SKB_AFFINITY_EOL

record skb_text_position =
  offset :: int
  affinity :: skb_affinity

record skb_text_selection =
  start_pos :: skb_text_position
  end_pos :: skb_text_position

record skb_visual_caret =
  caret_x :: real
  caret_y :: real
  caret_width :: real
  caret_height :: real
  caret_direction :: nat

record skb_rect2i =
  rect_x :: int
  rect_y :: int
  rect_width :: int
  rect_height :: int

text \<open>The modifier mask handed to the editor is a bit set over two flags.\<close>

datatype skb_mod = SKB_MOD_SHIFT | SKB_MOD_CONTROL

datatype skb_key =
  SKB_KEY_LEFT | SKB_KEY_RIGHT | SKB_KEY_UP | SKB_KEY_DOWN | SKB_KEY_HOME | SKB_KEY_END
  | SKB_KEY_BACKSPACE | SKB_KEY_DELETE | SKB_KEY_ENTER

datatype ime_event_t = IME_EVENT_COMPOSITION | IME_EVENT_COMMIT | IME_EVENT_CANCEL

subsection \<open>Calls to the collaborators\<close>

datatype call =
    Editor_paste_utf8 "string option"
  | Editor_undo
  | Editor_redo
  | Editor_process_key_pressed skb_key "skb_mod set"
  | Editor_select_all
  | Editor_select_none
  | Editor_insert_codepoint nat
  | Editor_cut
  | Editor_process_mouse_click real real "skb_mod set" real
  | Editor_process_mouse_drag real real
  | Editor_set_composition_utf32 "nat list" int int
  | Editor_commit_composition_utf32 "nat list" int
  | Editor_clear_composition
  | Editor_destroy
  | Font_collection_destroy
  | Temp_alloc_destroy
  | Temp_alloc nat
  | Temp_free
  | Skb_free
  | Ime_set_input_rect skb_rect2i
  | Ime_cancel
  | Ime_set_handler bool
  | Glfw_set_clipboard_string string
  | Glfw_set_window_should_close

text \<open>
  The answers of the collaborators. \<open>Ime_set_handler b\<close> registers a handler when \<open>b\<close>
  holds and clears the registration otherwise; a clipboard without text answers \<open>None\<close>
  (the null pointer).
\<close>

record env =
  skb_editor_get_current_selection :: "call list \<Rightarrow> skb_text_selection"
  skb_editor_get_visual_caret :: "call list \<Rightarrow> skb_text_position \<Rightarrow> skb_visual_caret"
  skb_editor_get_selection_text_utf32_count :: "call list \<Rightarrow> skb_text_selection \<Rightarrow> int"
  selection_text_utf8 :: "call list \<Rightarrow> skb_text_selection \<Rightarrow> string"
  glfwGetClipboardString :: "call list \<Rightarrow> string option"
  glfwGetTime :: "call list \<Rightarrow> real"
  skb_is_rtl :: "nat \<Rightarrow> bool"

text \<open>
  Modelled from the spec: the extraction of the selection text (``clipboard-range text
  extraction'') is declared in skb\_editor.h, which is not among the sources. The count is
  the number of bytes of the selection text; the extraction writes at most \<open>cap\<close> bytes
  into the buffer and answers how many it wrote.
\<close>

definition skb_editor_get_selection_text_utf8_count :: "env \<Rightarrow> call list \<Rightarrow> skb_text_selection \<Rightarrow> nat" where
  "skb_editor_get_selection_text_utf8_count E tr sel = length (selection_text_utf8 E tr sel)"

definition skb_editor_get_selection_text_utf8 :: "env \<Rightarrow> call list \<Rightarrow> skb_text_selection \<Rightarrow> nat \<Rightarrow> string" where
  "skb_editor_get_selection_text_utf8 E tr sel cap = take cap (selection_text_utf8 E tr sel)"

text \<open>The string a C function reads from a buffer that ends with the byte 0.\<close>

definition c_string :: "string \<Rightarrow> string" where
  "c_string buf = takeWhile (\<lambda>c. c \<noteq> CHR 0x00) buf"

subsection \<open>The view and the state of the testbed\<close>

text \<open>
  Modelled from the spec: \<open>view_t\<close> and its operations are declared in utils.h, which is
  not among the sources. The testbed reads the fields \<open>cx\<close>, \<open>cy\<close> and \<open>scale\<close>; the anchor
  of a drag is what \<open>startDrag\<close> records.
\<close>

record view_t =
  cx :: real
  cy :: real
  scale :: real
  drag_anchor_x :: real
  drag_anchor_y :: real

record testbed_context_t =
  allow_char :: bool
  view :: view_t
  drag_view :: bool
  drag_text :: bool
  atlas_scale :: real
  show_glyph_details :: bool
  show_caret_details :: bool
  show_baseline_details :: bool

text \<open>The context together with the calls made to the collaborators so far.\<close>

record testbed_state = testbed_context_t +
  trace :: "call list"

definition call :: "call \<Rightarrow> testbed_state \<Rightarrow> testbed_state" where
  "call c s = s\<lparr>trace := trace s @ [c]\<rparr>"

subsection \<open>View operations\<close>

text \<open>
  Modelled from the spec: \<open>view_drag_start\<close>, \<open>view_drag_move\<close> and \<open>view_scroll_zoom\<close>
  are defined in utils.c, which is not among the sources. \<open>startDrag\<close> records an anchor;
  \<open>updateDrag\<close> shifts the center by the screen-space delta since the anchor;
  \<open>zoomAt(screenPoint, deltaScale)\<close> sets \<open>scale' = scale + deltaScale\<close> and
  \<open>center' = screenPoint - (screenPoint - center) * (scale'/scale)\<close>. The operations are
  those of the formulas, in single precision like the rest of the program.
\<close>

definition view_drag_start :: "view_t \<Rightarrow> real \<Rightarrow> real \<Rightarrow> view_t" where
  "view_drag_start v mouse_x mouse_y = v\<lparr>drag_anchor_x := mouse_x, drag_anchor_y := mouse_y\<rparr>"

definition view_drag_move :: "view_t \<Rightarrow> real \<Rightarrow> real \<Rightarrow> view_t option" where
  "view_drag_move v mouse_x mouse_y =
     do {
       dx \<leftarrow> fsub mouse_x (drag_anchor_x v);
       cx' \<leftarrow> fadd (cx v) dx;
       dy \<leftarrow> fsub mouse_y (drag_anchor_y v);
       cy' \<leftarrow> fadd (cy v) dy;
       Some (v\<lparr>cx := cx', cy := cy', drag_anchor_x := mouse_x, drag_anchor_y := mouse_y\<rparr>)
     }"

definition view_scroll_zoom :: "view_t \<Rightarrow> real \<Rightarrow> real \<Rightarrow> real \<Rightarrow> view_t option" where
  "view_scroll_zoom v mouse_x mouse_y delta_scale =
     do {
       scale' \<leftarrow> fadd (scale v) delta_scale;
       ratio \<leftarrow> fdiv scale' (scale v);
       dx \<leftarrow> fsub mouse_x (cx v);
       px \<leftarrow> fmul dx ratio;
       cx' \<leftarrow> fsub mouse_x px;
       dy \<leftarrow> fsub mouse_y (cy v);
       py \<leftarrow> fmul dy ratio;
       cy' \<leftarrow> fsub mouse_y py;
       Some (v\<lparr>cx := cx', cy := cy', scale := scale'\<rparr>)
     }"

subsection \<open>Publishing the input rectangle\<close>

text \<open>The conversion \<open>(int32_t) f\<close>: truncation toward zero, undefined outside 32 bits.\<close>

definition truncate_toward_zero :: "real \<Rightarrow> int" where
  "truncate_toward_zero f = (if 0 \<le> f then \<lfloor>f\<rfloor> else \<lceil>f\<rceil>)"

definition cast_int32 :: "real \<Rightarrow> int option" where
  "cast_int32 f =
     (let i = truncate_toward_zero f
      in if - (2 ^ 31) \<le> i \<and> i < 2 ^ 31 then Some i else None)"

definition update_ime_rect :: "env \<Rightarrow> testbed_state \<Rightarrow> testbed_state option" where
  "update_ime_rect E s =
     (let edit_selection = skb_editor_get_current_selection E (trace s);
          caret_pos = skb_editor_get_visual_caret E (trace s) (end_pos edit_selection)
      in do {
        px \<leftarrow> fmul (caret_x caret_pos) (scale (view s));
        fx \<leftarrow> fadd (cx (view s)) px;
        x \<leftarrow> cast_int32 fx;
        py \<leftarrow> fmul (caret_y caret_pos) (scale (view s));
        fy \<leftarrow> fadd (cy (view s)) py;
        y \<leftarrow> cast_int32 fy;
        fw \<leftarrow> fmul (caret_width caret_pos) (scale (view s));
        w \<leftarrow> cast_int32 fw;
        fh \<leftarrow> fmul (caret_height caret_pos) (scale (view s));
        h \<leftarrow> cast_int32 fh;
        Some (call (Ime_set_input_rect
                \<lparr>rect_x = x, rect_y = y, rect_width = w, rect_height = h\<rparr>) s)
      })"

definition ime_handler :: "env \<Rightarrow> testbed_state \<Rightarrow> ime_event_t \<Rightarrow> nat list \<Rightarrow> int \<Rightarrow> int \<Rightarrow> testbed_state option" where
  "ime_handler E s event text text_length cursor =
     update_ime_rect E
       (if event = IME_EVENT_COMPOSITION
        then call (Editor_set_composition_utf32 text text_length cursor) s
        else if event = IME_EVENT_COMMIT
        then call (Editor_commit_composition_utf32 text text_length) s
        else if event = IME_EVENT_CANCEL
        then call Editor_clear_composition s
        else s)"

subsection \<open>Teardown\<close>

text \<open>
  \<open>memset\<close> clears every field of the context; the calls already made stay made.
\<close>

definition memset_zero :: "testbed_state \<Rightarrow> testbed_state" where
  "memset_zero s =
     s\<lparr>allow_char := False,
       view := \<lparr>cx = 0, cy = 0, scale = 0, drag_anchor_x = 0, drag_anchor_y = 0\<rparr>,
       drag_view := False, drag_text := False, atlas_scale := 0,
       show_glyph_details := False, show_caret_details := False,
       show_baseline_details := False\<rparr>"

definition testbed_destroy :: "testbed_state \<Rightarrow> testbed_state" where
  "testbed_destroy s0 =
     (let s1 = call Editor_destroy s0;
          s2 = call Font_collection_destroy s1;
          s3 = call Temp_alloc_destroy s2;
          s4 = memset_zero s3;
          s5 = call Ime_cancel s4;
          s6 = call (Ime_set_handler False) s5
      in call Skb_free s6)"

subsection \<open>Keys and characters\<close>

definition edit_mods_of :: "int \<Rightarrow> skb_mod set" where
  "edit_mods_of mods =
     (if mods AND GLFW_MOD_SHIFT \<noteq> 0 then {SKB_MOD_SHIFT} else {})
     \<union> (if mods AND GLFW_MOD_CONTROL \<noteq> 0 then {SKB_MOD_CONTROL} else {})"

text \<open>The keys handed to the editor as they are, in the order of the handler.\<close>

definition movement_keys :: "(int \<times> skb_key) list" where
  "movement_keys =
     [(GLFW_KEY_LEFT, SKB_KEY_LEFT), (GLFW_KEY_RIGHT, SKB_KEY_RIGHT),
      (GLFW_KEY_UP, SKB_KEY_UP), (GLFW_KEY_DOWN, SKB_KEY_DOWN),
      (GLFW_KEY_HOME, SKB_KEY_HOME), (GLFW_KEY_END, SKB_KEY_END),
      (GLFW_KEY_BACKSPACE, SKB_KEY_BACKSPACE), (GLFW_KEY_DELETE, SKB_KEY_DELETE),
      (GLFW_KEY_ENTER, SKB_KEY_ENTER)]"

definition process_key :: "int \<Rightarrow> skb_mod set \<Rightarrow> testbed_state \<Rightarrow> int \<times> skb_key \<Rightarrow> testbed_state" where
  "process_key key edit_mods s entry =
     (if key = fst entry then call (Editor_process_key_pressed (snd entry) edit_mods) s else s)"

text \<open>The block of \<open>testbed_on_key\<close> that runs on press and on repeat.\<close>

definition on_key_press_or_repeat :: "env \<Rightarrow> int \<Rightarrow> int \<Rightarrow> testbed_state \<Rightarrow> testbed_state option" where
  "on_key_press_or_repeat E key mods s0 =
     (let s1 = s0\<lparr>allow_char := True\<rparr>;
          s2 = (if key = GLFW_KEY_V \<and> mods AND GLFW_MOD_CONTROL \<noteq> 0
                then (call (Editor_paste_utf8 (glfwGetClipboardString E (trace s1))) s1)
                       \<lparr>allow_char := False\<rparr>
                else s1);
          s3 = (if key = GLFW_KEY_Z \<and> mods AND GLFW_MOD_CONTROL \<noteq> 0
                     \<and> mods AND GLFW_MOD_SHIFT = 0
                then call Editor_undo s2 else s2);
          s4 = (if key = GLFW_KEY_Z \<and> mods AND GLFW_MOD_CONTROL \<noteq> 0
                     \<and> mods AND GLFW_MOD_SHIFT \<noteq> 0
                then call Editor_redo s3 else s3);
          s5 = foldl (process_key key (edit_mods_of mods)) s4 movement_keys
      in update_ime_rect E s5)"

text \<open>
  Cut and copy put the text of the selection on the clipboard through a temporary buffer
  of \<open>text_len + 1\<close> bytes: the text is written, then the byte 0 after it. Cut asks for
  the length by an extraction into no buffer, copy by the count; both are the length of
  the text.
\<close>

definition selection_to_clipboard :: "env \<Rightarrow> testbed_state \<Rightarrow> testbed_state" where
  "selection_to_clipboard E s0 =
     (let selection = skb_editor_get_current_selection E (trace s0);
          text_len = skb_editor_get_selection_text_utf8_count E (trace s0) selection;
          s1 = call (Temp_alloc (text_len + 1)) s0;
          text = skb_editor_get_selection_text_utf8 E (trace s1) selection text_len;
          s2 = call (Glfw_set_clipboard_string (c_string (text @ [CHR 0x00]))) s1
      in call Temp_free s2)"

text \<open>
  The keys F7 to F10. The literal \<open>1.01f\<close> is the single \<open>4236247 / 4194304\<close>; a sum that
  overflows is greater than it as an infinity and as the finite number written here.
\<close>

definition toggle_details :: "int \<Rightarrow> testbed_state \<Rightarrow> testbed_state" where
  "toggle_details key s0 =
     (let s1 = (if key = GLFW_KEY_F7
                then s0\<lparr>show_baseline_details := \<not> show_baseline_details s0\<rparr> else s0);
          s2 = (if key = GLFW_KEY_F8
                then s1\<lparr>show_caret_details := \<not> show_caret_details s1\<rparr> else s1);
          s3 = (if key = GLFW_KEY_F9
                then s2\<lparr>show_glyph_details := \<not> show_glyph_details s2\<rparr> else s2)
      in if key = GLFW_KEY_F10
         then (let a = f32_round (atlas_scale s3 + 0.25)
               in s3\<lparr>atlas_scale := (if a > 4236247 / 4194304 then 0 else a)\<rparr>)
         else s3)"

text \<open>The block of \<open>testbed_on_key\<close> that runs on press only.\<close>

definition on_key_press :: "env \<Rightarrow> int \<Rightarrow> int \<Rightarrow> testbed_state \<Rightarrow> testbed_state option" where
  "on_key_press E key mods s0 =
     (let s1 = s0\<lparr>allow_char := True\<rparr>;
          s2 = (if key = GLFW_KEY_A \<and> mods AND GLFW_MOD_CONTROL \<noteq> 0
                then (call Editor_select_all s1)\<lparr>allow_char := False\<rparr> else s1);
          s3 = (if key = GLFW_KEY_TAB then call (Editor_insert_codepoint 9) s2 else s2);
          s4 = (if key = GLFW_KEY_ESCAPE
                then (let selection = skb_editor_get_current_selection E (trace s3)
                      in if skb_editor_get_selection_text_utf32_count E (trace s3) selection > 0
                         then call Editor_select_none s3
                         else call Glfw_set_window_should_close s3)
                else s3);
          s5 = (if key = GLFW_KEY_X \<and> mods AND GLFW_MOD_CONTROL \<noteq> 0
                then (call Editor_cut (selection_to_clipboard E s4))\<lparr>allow_char := False\<rparr>
                else s4);
          s6 = (if key = GLFW_KEY_C \<and> mods AND GLFW_MOD_CONTROL \<noteq> 0
                then (selection_to_clipboard E s5)\<lparr>allow_char := False\<rparr>
                else s5)
      in map_option (toggle_details key) (update_ime_rect E s6))"

definition testbed_on_key :: "env \<Rightarrow> testbed_state \<Rightarrow> int \<Rightarrow> int \<Rightarrow> int \<Rightarrow> testbed_state option" where
  "testbed_on_key E s key action mods =
     do {
       s' \<leftarrow> (if action = GLFW_PRESS \<or> action = GLFW_REPEAT
              then on_key_press_or_repeat E key mods s else Some s);
       if action = GLFW_PRESS then on_key_press E key mods s' else Some s'
     }"

definition testbed_on_char :: "testbed_state \<Rightarrow> nat \<Rightarrow> testbed_state" where
  "testbed_on_char s codepoint =
     (if allow_char s then call (Editor_insert_codepoint codepoint) s else s)"

subsection \<open>Mouse\<close>

definition transform_mouse_pos :: "testbed_state \<Rightarrow> real \<Rightarrow> real \<Rightarrow> (real \<times> real) option" where
  "transform_mouse_pos s mouse_x mouse_y =
     do {
       dx \<leftarrow> fsub mouse_x (cx (view s));
       x \<leftarrow> fdiv dx (scale (view s));
       dy \<leftarrow> fsub mouse_y (cy (view s));
       y \<leftarrow> fdiv dy (scale (view s));
       Some (x, y)
     }"

definition on_right_button :: "int \<Rightarrow> real \<Rightarrow> real \<Rightarrow> testbed_state \<Rightarrow> testbed_state" where
  "on_right_button action mouse_x mouse_y s0 =
     (let s1 = (if action = GLFW_PRESS
                then (if \<not> drag_view s0
                      then s0\<lparr>view := view_drag_start (view s0) mouse_x mouse_y,
                              drag_view := True\<rparr>
                      else s0)
                else s0)
      in if action = GLFW_RELEASE
         then (if drag_view s1 then s1\<lparr>drag_view := False\<rparr> else s1)
         else s1)"

definition on_left_button :: "env \<Rightarrow> int \<Rightarrow> skb_mod set \<Rightarrow> real \<Rightarrow> real \<Rightarrow> testbed_state \<Rightarrow> testbed_state option" where
  "on_left_button E action mouse_mods mouse_x mouse_y s0 =
     do {
       s1 \<leftarrow> (if action = GLFW_PRESS
              then (if \<not> drag_text s0
                    then (let s' = (call Ime_cancel s0)\<lparr>drag_text := True\<rparr>
                          in do {
                            pos \<leftarrow> transform_mouse_pos s' mouse_x mouse_y;
                            Some (call (Editor_process_mouse_click (fst pos) (snd pos)
                                          mouse_mods (glfwGetTime E (trace s'))) s')
                          })
                    else Some s0)
              else Some s0);
       Some (if action = GLFW_RELEASE
             then (if drag_text s1 then s1\<lparr>drag_text := False\<rparr> else s1)
             else s1)
     }"

definition testbed_on_mouse_button :: "env \<Rightarrow> testbed_state \<Rightarrow> real \<Rightarrow> real \<Rightarrow> int \<Rightarrow> int \<Rightarrow> int \<Rightarrow> testbed_state option" where
  "testbed_on_mouse_button E s0 mouse_x mouse_y button action mods =
     (let mouse_mods = edit_mods_of mods;
          s1 = (if button = GLFW_MOUSE_BUTTON_RIGHT
                then on_right_button action mouse_x mouse_y s0 else s0)
      in do {
        s2 \<leftarrow> (if button = GLFW_MOUSE_BUTTON_LEFT
               then on_left_button E action mouse_mods mouse_x mouse_y s1 else Some s1);
        update_ime_rect E s2
      })"

definition testbed_on_mouse_move :: "env \<Rightarrow> testbed_state \<Rightarrow> real \<Rightarrow> real \<Rightarrow> testbed_state option" where
  "testbed_on_mouse_move E s0 mouse_x mouse_y =
     do {
       s1 \<leftarrow> (if drag_view s0
              then do {
                v \<leftarrow> view_drag_move (view s0) mouse_x mouse_y;
                update_ime_rect E (s0\<lparr>view := v\<rparr>)
              }
              else Some s0);
       if drag_text s1
       then do {
         pos \<leftarrow> transform_mouse_pos s1 mouse_x mouse_y;
         update_ime_rect E (call (Editor_process_mouse_drag (fst pos) (snd pos)) s1)
       }
       else Some s1
     }"

text \<open>The literal \<open>0.2f\<close> is the single nearest to \<open>0.2\<close>.\<close>

definition zoom_speed :: real where
  "zoom_speed = 13421773 / 67108864"

definition testbed_on_mouse_scroll :: "testbed_state \<Rightarrow> real \<Rightarrow> real \<Rightarrow> real \<Rightarrow> real \<Rightarrow> int \<Rightarrow> testbed_state option" where
  "testbed_on_mouse_scroll s mouse_x mouse_y delta_x delta_y mods =
     do {
       delta_scale \<leftarrow> fmul delta_y zoom_speed;
       v \<leftarrow> view_scroll_zoom (view s) mouse_x mouse_y delta_scale;
       Some (s\<lparr>view := v\<rparr>)
     }"

subsection \<open>Dispatch of the events\<close>

text \<open>
  The testbed registers its handlers in the callback table of the example; the
  application calls them one event at a time.
\<close>

datatype event =
    On_key int int int
  | On_char nat
  | On_mouse_button real real int int int
  | On_mouse_move real real
  | On_mouse_scroll real real real real int
  | On_ime ime_event_t "nat list" int int

fun dispatch :: "env \<Rightarrow> testbed_state \<Rightarrow> event \<Rightarrow> testbed_state option" where
  "dispatch E s (On_key key action mods) = testbed_on_key E s key action mods"
| "dispatch E s (On_char codepoint) = Some (testbed_on_char s codepoint)"
| "dispatch E s (On_mouse_button mouse_x mouse_y button action mods) =
     testbed_on_mouse_button E s mouse_x mouse_y button action mods"
| "dispatch E s (On_mouse_move mouse_x mouse_y) = testbed_on_mouse_move E s mouse_x mouse_y"
| "dispatch E s (On_mouse_scroll mouse_x mouse_y delta_x delta_y mods) =
     testbed_on_mouse_scroll s mouse_x mouse_y delta_x delta_y mods"
| "dispatch E s (On_ime ev text text_length cursor) = ime_handler E s ev text text_length cursor"

fun run :: "env \<Rightarrow> testbed_state \<Rightarrow> event list \<Rightarrow> testbed_state option" where
  "run E s [] = Some s"
| "run E s (e # es) = (case dispatch E s e of None \<Rightarrow> None | Some s' \<Rightarrow> run E s' es)"

text \<open>What an observer of the collaborators sees of a state.\<close>

definition input_rects :: "call list \<Rightarrow> skb_rect2i list" where
  "input_rects tr = concat (map (\<lambda>c. case c of Ime_set_input_rect r \<Rightarrow> [r] | _ \<Rightarrow> []) tr)"

definition new_calls :: "testbed_state \<Rightarrow> testbed_state \<Rightarrow> call list" where
  "new_calls s s' = drop (length (trace s)) (trace s')"

definition drag_modes :: "testbed_state \<Rightarrow> bool \<times> bool" where
  "drag_modes s = (drag_view s, drag_text s)"

subsection \<open>Drawing the caret boundaries of a line\<close>

datatype skb_color_t = skb_rgba nat nat nat nat

datatype render_align = RENDER_ALIGN_START | RENDER_ALIGN_END

text \<open>
  The calls to the debug renderer: a line with its color and width, a triangle with its
  color, and a text with its size, alignment and color, here always the format
  \<open>"%s%d"\<close> with its two arguments.
\<close>

datatype render_call =
    Debug_render_line real real real real skb_color_t real
  | Debug_render_tri real real real real real real skb_color_t
  | Debug_render_text real real real render_align skb_color_t string int

record skb_caret_iterator_result_t =
  text_position :: skb_text_position
  direction :: nat

text \<open>What one successful call of \<open>skb_caret_iterator_next\<close> yields.\<close>

record caret_boundary =
  boundary_x :: real
  boundary_advance :: real
  left :: skb_caret_iterator_result_t
  right :: skb_caret_iterator_result_t

definition caret_color :: skb_color_t where
  "caret_color = skb_rgba 255 128 128 255"

definition caret2_color :: skb_color_t where
  "caret2_color = skb_rgba 128 128 255 255"

fun affinity_str :: "skb_affinity \<Rightarrow> string" where
  "affinity_str SKB_AFFINITY_NONE = ''-''"
| "affinity_str SKB_AFFINITY_TRAILING = ''TR''"
| "affinity_str SKB_AFFINITY_LEADING = ''LE''"
| "affinity_str SKB_AFFINITY_SOL = ''SOL''"
| "affinity_str SKB_AFFINITY_EOL = ''EOL''"

text \<open>
  The body of the loop over the boundaries of a line: the calls to the renderer for one
  boundary, and the value of \<open>left_text_offset\<close> after it.
\<close>

definition draw_caret_boundary :: "env \<Rightarrow> real \<Rightarrow> real \<Rightarrow> real \<Rightarrow> real \<Rightarrow> caret_boundary \<Rightarrow> render_call list \<times> real" where
  "draw_caret_boundary E ox top_y bot_y left_text_offset b =
     (let x = ox + boundary_x b;
          line = Debug_render_line x bot_y x (top_y + 5) caret_color (- 1);
          l = left b;
          r = right b
      in if direction l \<noteq> direction r
         then ([line,
                Debug_render_tri x (top_y + 5) (x - 5) (top_y + 5) x (top_y + 5 + 5) caret2_color,
                Debug_render_tri x (top_y + 5) (x + 5) (top_y + 5) x (top_y + 5 + 5) caret_color,
                Debug_render_text (x - 3) (top_y + 20 + left_text_offset) 11 RENDER_ALIGN_END
                  caret2_color (affinity_str (affinity (text_position l)))
                  (offset (text_position l)),
                Debug_render_text (x + 3) (top_y + 20) 11 RENDER_ALIGN_START
                  caret_color (affinity_str (affinity (text_position r)))
                  (offset (text_position r))],
               if boundary_advance b < 40 then 15 else 0)
         else if affinity (text_position r) = SKB_AFFINITY_TRAILING
         then ([line,
                Debug_render_tri x (top_y + 5)
                  (x + (if skb_is_rtl E (direction r) then - 5 else 5)) (top_y + 5)
                  x (top_y + 5 + 5) caret_color,
                Debug_render_text (x + 3) (top_y + 20) 11 RENDER_ALIGN_START
                  caret_color (affinity_str (affinity (text_position r)))
                  (offset (text_position r))],
               if boundary_advance b < 40 then 15 else 0)
         else ([line,
                Debug_render_tri x (top_y + 5)
                  (x + (if skb_is_rtl E (direction l) then - 5 else 5)) (top_y + 5)
                  x (top_y + 5 + 5) caret2_color,
                Debug_render_text (x - 3) (top_y + 20 + left_text_offset) 11 RENDER_ALIGN_END
                  caret2_color (affinity_str (affinity (text_position l)))
                  (offset (text_position l))],
               0))"

text \<open>The loop: the iterator yields the boundaries of the line one after the other.\<close>

fun draw_caret_boundaries :: "env \<Rightarrow> real \<Rightarrow> real \<Rightarrow> real \<Rightarrow> real \<Rightarrow> caret_boundary list \<Rightarrow> render_call list" where
  "draw_caret_boundaries E ox top_y bot_y left_text_offset [] = []"
| "draw_caret_boundaries E ox top_y bot_y left_text_offset (b # bs) =
     (case draw_caret_boundary E ox top_y bot_y left_text_offset b of
        (calls, left_text_offset') \<Rightarrow>
          calls @ draw_caret_boundaries E ox top_y bot_y left_text_offset' bs)"

definition draw_caret_details :: "env \<Rightarrow> testbed_state \<Rightarrow> real \<Rightarrow> real \<Rightarrow> real \<Rightarrow> caret_boundary list \<Rightarrow> render_call list" where
  "draw_caret_details E s ox top_y bot_y boundaries =
     (if show_caret_details s then draw_caret_boundaries E ox top_y bot_y 0 boundaries else [])"

text \<open>The markers and the labels among the calls to the renderer.\<close>

fun is_tri :: "render_call \<Rightarrow> bool" where
  "is_tri (Debug_render_tri x0 y0 x1 y1 x2 y2 c) = True"
| "is_tri _ = False"

fun is_text :: "render_call \<Rightarrow> bool" where
  "is_text (Debug_render_text x y sz al c str n) = True"
| "is_text _ = False"

subsection \<open>A small environment for concrete runs\<close>

text \<open>
  An editor that holds the text \<open>abc\<close> with the caret at its start; select-all selects
  the three characters. The clipboard holds \<open>xyz\<close> until the testbed writes to it.
\<close>

definition demo_selection :: "call list \<Rightarrow> skb_text_selection" where
  "demo_selection tr =
     (if Editor_select_all \<in> set tr
      then \<lparr>start_pos = \<lparr>offset = 0, affinity = SKB_AFFINITY_LEADING\<rparr>,
            end_pos = \<lparr>offset = 3, affinity = SKB_AFFINITY_TRAILING\<rparr>\<rparr>
      else \<lparr>start_pos = \<lparr>offset = 0, affinity = SKB_AFFINITY_TRAILING\<rparr>,
            end_pos = \<lparr>offset = 0, affinity = SKB_AFFINITY_TRAILING\<rparr>\<rparr>)"

definition demo_clipboard :: "call list \<Rightarrow> string option" where
  "demo_clipboard tr =
     foldl (\<lambda>acc c. case c of Glfw_set_clipboard_string t \<Rightarrow> Some t | _ \<Rightarrow> acc)
       (Some ''xyz'') tr"

definition demo_env :: env where
  "demo_env =
     \<lparr>skb_editor_get_current_selection = demo_selection,
       skb_editor_get_visual_caret = (\<lambda>tr pos.
         \<lparr>caret_x = 10 * real_of_int (offset pos) + 1 / 2, caret_y = - 7 / 2,
          caret_width = 0, caret_height = 20, caret_direction = 0\<rparr>),
       skb_editor_get_selection_text_utf32_count = (\<lambda>tr sel.
         offset (end_pos sel) - offset (start_pos sel)),
       selection_text_utf8 = (\<lambda>tr sel.
         take (nat (offset (end_pos sel) - offset (start_pos sel)))
           (drop (nat (offset (start_pos sel))) ''abc'')),
       glfwGetClipboardString = demo_clipboard,
       glfwGetTime = (\<lambda>tr. real (length tr)),
       skb_is_rtl = (\<lambda>d. d = 2)\<rparr>"

definition demo_state :: testbed_state where
  "demo_state =
     \<lparr>allow_char = False,
       view = \<lparr>cx = 400, cy = 120, scale = 1, drag_anchor_x = 0, drag_anchor_y = 0\<rparr>,
       drag_view = False, drag_text = False, atlas_scale = 0,
       show_glyph_details = False, show_caret_details = True, show_baseline_details = False,
       trace = []\<rparr>"

subsection \<open>The calls of a key event, listed\<close>

text \<open>
  The calls that the two blocks of \<open>testbed_on_key\<close> make before they publish the input
  rectangle, as lists; the lemmas below prove that the handler makes exactly these.
\<close>

definition press_or_repeat_calls :: "env \<Rightarrow> int \<Rightarrow> int \<Rightarrow> call list \<Rightarrow> call list" where
  "press_or_repeat_calls E key mods tr =
     (if key = GLFW_KEY_V \<and> mods AND GLFW_MOD_CONTROL \<noteq> 0
      then [Editor_paste_utf8 (glfwGetClipboardString E tr)] else [])
     @ (if key = GLFW_KEY_Z \<and> mods AND GLFW_MOD_CONTROL \<noteq> 0 \<and> mods AND GLFW_MOD_SHIFT = 0
        then [Editor_undo] else [])
     @ (if key = GLFW_KEY_Z \<and> mods AND GLFW_MOD_CONTROL \<noteq> 0 \<and> mods AND GLFW_MOD_SHIFT \<noteq> 0
        then [Editor_redo] else [])
     @ map (\<lambda>e. Editor_process_key_pressed (snd e) (edit_mods_of mods))
         (filter (\<lambda>e. key = fst e) movement_keys)"

definition clipboard_calls :: "env \<Rightarrow> call list \<Rightarrow> call list" where
  "clipboard_calls E tr =
     (let selection = skb_editor_get_current_selection E tr;
          text_len = skb_editor_get_selection_text_utf8_count E tr selection
      in [Temp_alloc (text_len + 1),
          Glfw_set_clipboard_string (c_string
            (skb_editor_get_selection_text_utf8 E (tr @ [Temp_alloc (text_len + 1)])
               selection text_len @ [CHR 0x00])),
          Temp_free])"

definition press_calls :: "env \<Rightarrow> int \<Rightarrow> int \<Rightarrow> call list \<Rightarrow> call list" where
  "press_calls E key mods tr =
     (if key = GLFW_KEY_A \<and> mods AND GLFW_MOD_CONTROL \<noteq> 0 then [Editor_select_all]
      else if key = GLFW_KEY_TAB then [Editor_insert_codepoint 9]
      else if key = GLFW_KEY_ESCAPE
      then [if skb_editor_get_selection_text_utf32_count E tr
                 (skb_editor_get_current_selection E tr) > 0
            then Editor_select_none else Glfw_set_window_should_close]
      else if key = GLFW_KEY_X \<and> mods AND GLFW_MOD_CONTROL \<noteq> 0
      then clipboard_calls E tr @ [Editor_cut]
      else if key = GLFW_KEY_C \<and> mods AND GLFW_MOD_CONTROL \<noteq> 0 then clipboard_calls E tr
      else [])"

definition clears_gate :: "int \<Rightarrow> int \<Rightarrow> bool" where
  "clears_gate key mods \<longleftrightarrow>
     mods AND GLFW_MOD_CONTROL \<noteq> 0
     \<and> (key = GLFW_KEY_A \<or> key = GLFW_KEY_X \<or> key = GLFW_KEY_C)"

subsection \<open>The input rectangle as the specification words it\<close>

text \<open>
  The visual caret at the end of the selection; the single-precision values of
  \<open>center + caret.position * scale\<close> and \<open>caret.size * scale\<close>; and the rectangle of
  these values, every component truncated toward zero.
\<close>

definition caret_at :: "env \<Rightarrow> call list \<Rightarrow> skb_visual_caret" where
  "caret_at E tr =
     skb_editor_get_visual_caret E tr (end_pos (skb_editor_get_current_selection E tr))"

definition caret_screen_x :: "env \<Rightarrow> call list \<Rightarrow> view_t \<Rightarrow> real" where
  "caret_screen_x E tr v = f32_round (cx v + f32_round (caret_x (caret_at E tr) * scale v))"

definition caret_screen_y :: "env \<Rightarrow> call list \<Rightarrow> view_t \<Rightarrow> real" where
  "caret_screen_y E tr v = f32_round (cy v + f32_round (caret_y (caret_at E tr) * scale v))"

definition caret_screen_width :: "env \<Rightarrow> call list \<Rightarrow> view_t \<Rightarrow> real" where
  "caret_screen_width E tr v = f32_round (caret_width (caret_at E tr) * scale v)"

definition caret_screen_height :: "env \<Rightarrow> call list \<Rightarrow> view_t \<Rightarrow> real" where
  "caret_screen_height E tr v = f32_round (caret_height (caret_at E tr) * scale v)"

definition caret_screen_rect :: "env \<Rightarrow> call list \<Rightarrow> view_t \<Rightarrow> skb_rect2i" where
  "caret_screen_rect E tr v =
     \<lparr>rect_x = truncate_toward_zero (caret_screen_x E tr v),
       rect_y = truncate_toward_zero (caret_screen_y E tr v),
       rect_width = truncate_toward_zero (caret_screen_width E tr v),
       rect_height = truncate_toward_zero (caret_screen_height E tr v)\<rparr>"

text \<open>An integer is the truncation of a real toward zero.\<close>

definition truncation_of :: "int \<Rightarrow> real \<Rightarrow> bool" where
  "truncation_of i f \<longleftrightarrow>
     \<bar>real_of_int i\<bar> \<le> \<bar>f\<bar> \<and> \<bar>f - real_of_int i\<bar> < 1 \<and> 0 \<le> real_of_int i * f"

text \<open>The call to the editor that an input-method event leads to.\<close>

definition ime_call :: "ime_event_t \<Rightarrow> nat list \<Rightarrow> int \<Rightarrow> int \<Rightarrow> call" where
  "ime_call event text text_length cursor =
     (case event of
        IME_EVENT_COMPOSITION \<Rightarrow> Editor_set_composition_utf32 text text_length cursor
      | IME_EVENT_COMMIT \<Rightarrow> Editor_commit_composition_utf32 text text_length
      | IME_EVENT_CANCEL \<Rightarrow> Editor_clear_composition)"

text \<open>The state of the concrete runs with the view moved to the left and zoomed out.\<close>

definition demo_state_left :: testbed_state where
  "demo_state_left =
     demo_state\<lparr>view := \<lparr>cx = - 400, cy = - 120, scale = 1 / 2,
                          drag_anchor_x = 0, drag_anchor_y = 0\<rparr>\<rparr>"

text \<open>The same state with the view far to the right and zoomed in.\<close>

definition demo_state_far :: testbed_state where
  "demo_state_far =
     demo_state\<lparr>view := \<lparr>cx = 16777216, cy = 120, scale = 2,
                          drag_anchor_x = 0, drag_anchor_y = 0\<rparr>\<rparr>"


subsection \<open>Markers and labels as the specification words them\<close>

text \<open>
  A marker is a triangle together with its label: the horizontal offset of the tip of the
  triangle from the boundary (negative to the left, positive to the right) and the
  affinity and offset that the label prints.
\<close>

fun tri_dx :: "render_call \<Rightarrow> real" where
  "tri_dx (Debug_render_tri x0 y0 x1 y1 x2 y2 c) = x1 - x0"
| "tri_dx _ = 0"

fun text_label :: "render_call \<Rightarrow> string \<times> int" where
  "text_label (Debug_render_text x y sz al c str n) = (str, n)"
| "text_label _ = ([], 0)"

fun text_y :: "render_call \<Rightarrow> real" where
  "text_y (Debug_render_text x y sz al c str n) = y"
| "text_y _ = 0"

fun text_align :: "render_call \<Rightarrow> render_align" where
  "text_align (Debug_render_text x y sz al c str n) = al"
| "text_align _ = RENDER_ALIGN_START"

definition markers :: "render_call list \<Rightarrow> (real \<times> string \<times> int) list" where
  "markers calls = zip (map tri_dx (filter is_tri calls)) (map text_label (filter is_text calls))"

definition label_of :: "skb_caret_iterator_result_t \<Rightarrow> string \<times> int" where
  "label_of r = (affinity_str (affinity (text_position r)), offset (text_position r))"

definition along :: "env \<Rightarrow> nat \<Rightarrow> real" where
  "along E d = (if skb_is_rtl E d then - 5 else 5)"

definition resolve_caret :: "env \<Rightarrow> caret_boundary \<Rightarrow> (real \<times> string \<times> int) list" where
  "resolve_caret E b =
     (if direction (left b) \<noteq> direction (right b)
      then [(- 5, label_of (left b)), (5, label_of (right b))]
      else if affinity (text_position (right b)) = SKB_AFFINITY_TRAILING
      then [(along E (direction (right b)), label_of (right b))]
      else [(along E (direction (left b)), label_of (left b))])"

text \<open>
  The value of \<open>left_text_offset\<close> that a boundary leaves to the next one, and the value
  that has been carried to the end of a list of boundaries of a line.
\<close>

definition offset_after :: "caret_boundary \<Rightarrow> real" where
  "offset_after b =
     (if direction (left b) \<noteq> direction (right b)
         \<or> affinity (text_position (right b)) = SKB_AFFINITY_TRAILING
      then (if boundary_advance b < 40 then 15 else 0)
      else 0)"

definition carried_offset :: "caret_boundary list \<Rightarrow> real" where
  "carried_offset bs = (if bs = [] then 0 else offset_after (last bs))"

text \<open>Boundaries for the concrete runs; direction 2 is right-to-left in \<open>demo_env\<close>.\<close>

definition demo_boundary :: "real \<Rightarrow> real \<Rightarrow> nat \<Rightarrow> skb_affinity \<Rightarrow> int \<Rightarrow> nat \<Rightarrow> skb_affinity \<Rightarrow> int \<Rightarrow> caret_boundary" where
  "demo_boundary x adv ld la lo rd ra ro =
     \<lparr>boundary_x = x, boundary_advance = adv,
       left = \<lparr>text_position = \<lparr>offset = lo, affinity = la\<rparr>, direction = ld\<rparr>,
       right = \<lparr>text_position = \<lparr>offset = ro, affinity = ra\<rparr>, direction = rd\<rparr>\<rparr>"

definition demo_line :: "caret_boundary list" where
  "demo_line =
     [demo_boundary (- 50) 50 1 SKB_AFFINITY_LEADING 8 1 SKB_AFFINITY_TRAILING 7,
      demo_boundary 0 10 1 SKB_AFFINITY_TRAILING 0 2 SKB_AFFINITY_TRAILING 5,
      demo_boundary 10 50 2 SKB_AFFINITY_LEADING 4 1 SKB_AFFINITY_LEADING 1,
      demo_boundary 60 10 2 SKB_AFFINITY_LEADING 3 2 SKB_AFFINITY_TRAILING 3,
      demo_boundary 70 10 2 SKB_AFFINITY_LEADING 2 2 SKB_AFFINITY_LEADING 2,
      demo_boundary 80 10 2 SKB_AFFINITY_LEADING 1 2 SKB_AFFINITY_LEADING 1]"

section \<open>Properties\<close>

lemmas glfw_defs =
  GLFW_RELEASE_def GLFW_PRESS_def GLFW_REPEAT_def GLFW_MOD_SHIFT_def GLFW_MOD_CONTROL_def
  GLFW_MOUSE_BUTTON_LEFT_def GLFW_MOUSE_BUTTON_RIGHT_def
  GLFW_KEY_A_def GLFW_KEY_C_def GLFW_KEY_V_def GLFW_KEY_X_def GLFW_KEY_Z_def
  GLFW_KEY_ESCAPE_def GLFW_KEY_ENTER_def GLFW_KEY_TAB_def GLFW_KEY_BACKSPACE_def
  GLFW_KEY_DELETE_def GLFW_KEY_RIGHT_def GLFW_KEY_LEFT_def GLFW_KEY_DOWN_def
  GLFW_KEY_UP_def GLFW_KEY_HOME_def GLFW_KEY_END_def
  GLFW_KEY_F7_def GLFW_KEY_F8_def GLFW_KEY_F9_def GLFW_KEY_F10_def

lemmas demo_defs = demo_env_def demo_state_def demo_selection_def demo_clipboard_def

lemmas handler_defs =
  testbed_on_key_def on_key_press_or_repeat_def on_key_press_def update_ime_rect_def
  cast_int32_def truncate_toward_zero_def call_def movement_keys_def process_key_def
  toggle_details_def selection_to_clipboard_def skb_editor_get_selection_text_utf8_def
  skb_editor_get_selection_text_utf8_count_def c_string_def testbed_on_char_def
  testbed_on_mouse_button_def on_left_button_def on_right_button_def
  transform_mouse_pos_def view_drag_start_def edit_mods_of_def input_rects_def
  drag_modes_def ime_handler_def new_calls_def fadd_def fsub_def fmul_def fdiv_def

subsection \<open>Rounding to single precision\<close>

lemma pow2_powr: "pow2 e = 2 powr real_of_int e"
  by (simp add: pow2_def powr_real_of_int inverse_eq_divide)

lemma pow2_pos [simp]: "0 < pow2 e"
  by (simp add: pow2_powr)

lemma pow2_nonzero [simp]: "pow2 e \<noteq> 0"
  by (metis less_irrefl pow2_pos)

lemma pow2_add: "pow2 (a + b) = pow2 a * pow2 b"
  by (simp add: pow2_powr powr_add)

lemma pow2_mono: "a \<le> b \<Longrightarrow> pow2 a \<le> pow2 b"
  by (simp add: pow2_powr)

lemma f32_exponent_eq:
  assumes "pow2 e \<le> \<bar>x\<bar>" and "\<bar>x\<bar> < pow2 (e + 1)" and "- 126 \<le> e"
  shows "f32_exponent x = e"
proof -
  have "0 < \<bar>x\<bar>" using assms(1) pow2_pos [of e] by linarith
  then have "\<lfloor>log 2 \<bar>x\<bar>\<rfloor> = e"
    using assms(1,2) by (simp add: floor_log_eq_powr_iff pow2_powr)
  then show ?thesis using assms(3) by (simp add: f32_exponent_def)
qed

lemma f32_round_eq:
  assumes "pow2 e \<le> \<bar>x\<bar>" and "\<bar>x\<bar> < pow2 (e + 1)" and "- 126 \<le> e"
  shows "f32_round x = real_of_int (round_half_even (x / pow2 (e - 23))) * pow2 (e - 23)"
proof -
  have "0 < \<bar>x\<bar>" using assms(1) pow2_pos [of e] by linarith
  then have "x \<noteq> 0" by auto
  then show ?thesis by (simp add: f32_round_def f32_exponent_eq [OF assms])
qed

lemma round_half_even_of_int [simp]: "round_half_even (real_of_int n) = n"
  by (simp add: round_half_even_def)

lemma exponent_bounds:
  assumes "x \<noteq> 0"
  shows "pow2 \<lfloor>log 2 \<bar>x\<bar>\<rfloor> \<le> \<bar>x\<bar>" and "\<bar>x\<bar> < pow2 (\<lfloor>log 2 \<bar>x\<bar>\<rfloor> + 1)"
  using assms floor_log_eq_powr_iff [of "\<bar>x\<bar>" 2 "\<lfloor>log 2 \<bar>x\<bar>\<rfloor>"]
  by (simp_all add: pow2_powr)

text \<open>
  A number \<open>m * 2^j\<close> with \<open>|m| < 2^24\<close> and \<open>j \<ge> -149\<close> below \<open>2^128\<close> is a single: rounding
  leaves it as it is.
\<close>

lemma f32_representable:
  assumes x: "x = real_of_int m * pow2 j" and m: "\<bar>m\<bar> < 2 ^ 24" and j: "- 149 \<le> j"
    and b: "\<bar>x\<bar> < 2 ^ 128"
  shows "f32 x = Some x"
proof (cases "x = 0")
  case True
  then show ?thesis by (simp add: f32_def f32_round_def)
next
  case False
  define e where "e = f32_exponent x"
  define k where "k = \<lfloor>log 2 \<bar>x\<bar>\<rfloor>"
  have kb: "pow2 k \<le> \<bar>x\<bar>" "\<bar>x\<bar> < pow2 (k + 1)"
    using exponent_bounds [OF False] by (simp_all add: k_def)
  have e: "e = max (- 126) k" by (simp add: e_def f32_exponent_def k_def)
  have "\<bar>x\<bar> < pow2 (24 + j)"
  proof -
    have "\<bar>real_of_int m\<bar> < 2 ^ 24" using m by (metis of_int_abs of_int_less_numeral_power_cancel_iff)
    then have "\<bar>real_of_int m\<bar> * pow2 j < 2 ^ 24 * pow2 j"
      using pow2_pos [of j] by (intro mult_strict_right_mono)
    moreover have "\<bar>x\<bar> = \<bar>real_of_int m\<bar> * pow2 j"
      using abs_of_pos [OF pow2_pos [of j]] by (simp add: x abs_mult)
    ultimately have "\<bar>x\<bar> < 2 ^ 24 * pow2 j"
      by simp
    also have "\<dots> = pow2 (24 + j)"
      using pow2_add [of 24 j] by (simp add: pow2_def [of 24])
    finally show ?thesis .
  qed
  then have "pow2 k < pow2 (24 + j)" using kb(1) by linarith
  then have "k < 24 + j" by (simp add: pow2_powr)
  then have ej: "0 \<le> j - (e - 23)" using e j by auto
  have "x / pow2 (e - 23) = real_of_int m * pow2 (j - (e - 23))"
  proof -
    have "pow2 j = pow2 (j - (e - 23)) * pow2 (e - 23)"
      using pow2_add [of "j - (e - 23)" "e - 23"] by simp
    then show ?thesis by (simp add: x)
  qed
  also have "\<dots> = real_of_int (m * 2 ^ nat (j - (e - 23)))"
    using ej by (simp add: pow2_def)
  finally have q: "x / pow2 (e - 23) = real_of_int (m * 2 ^ nat (j - (e - 23)))" .
  have "f32_round x = real_of_int (m * 2 ^ nat (j - (e - 23))) * pow2 (e - 23)"
    using False unfolding f32_round_def e_def [symmetric] q
    by (simp only: round_half_even_of_int if_False)
  also have "\<dots> = x" using q [symmetric] by simp
  finally show ?thesis using b by (simp add: f32_def)
qed

lemma f32_dyadic:
  assumes "\<bar>m\<bar> < 2 ^ 24" and "k \<le> 149"
  shows "f32 (real_of_int m / 2 ^ k) = Some (real_of_int m / 2 ^ k)"
proof (rule f32_representable [where m = m and j = "- int k"])
  show "real_of_int m / 2 ^ k = real_of_int m * pow2 (- int k)"
    by (simp add: pow2_def)
  show "\<bar>m\<bar> < 2 ^ 24" by fact
  show "- 149 \<le> - int k" using assms(2) by simp
  have "\<bar>real_of_int m\<bar> < 2 ^ 24"
    using assms(1) by (metis of_int_abs of_int_less_numeral_power_cancel_iff)
  moreover have "\<bar>real_of_int m / 2 ^ k\<bar> \<le> \<bar>real_of_int m\<bar>"
    by (simp add: field_simps mult_le_cancel_left1)
  moreover have "(2::real) ^ 24 \<le> 2 ^ 128" by simp
  ultimately show "\<bar>real_of_int m / 2 ^ k\<bar> < 2 ^ 128" by linarith
qed

lemma f32_numeral [simp]:
  "(numeral n :: int) < 2 ^ 24 \<Longrightarrow> f32 (numeral n) = Some (numeral n)"
  "(numeral n :: int) < 2 ^ 24 \<Longrightarrow> f32 (- numeral n) = Some (- numeral n)"
  "f32 0 = Some 0" "f32 1 = Some 1"
  using f32_dyadic [of "numeral n" 0] f32_dyadic [of "- numeral n" 0]
    f32_dyadic [of 0 0] f32_dyadic [of 1 0]
  by simp_all

lemma f32_numeral_div [simp]:
  "(numeral n :: int) < 2 ^ 24 \<Longrightarrow> f32 (numeral n / 2) = Some (numeral n / 2)"
  "(numeral n :: int) < 2 ^ 24 \<Longrightarrow> f32 (- (numeral n / 2)) = Some (- (numeral n / 2))"
  "(numeral n :: int) < 2 ^ 24 \<Longrightarrow> f32 (numeral n / 4) = Some (numeral n / 4)"
  "(numeral n :: int) < 2 ^ 24 \<Longrightarrow> f32 (- (numeral n / 4)) = Some (- (numeral n / 4))"
  "f32 (1 / 2) = Some (1 / 2)" "f32 (1 / 4) = Some (1 / 4)"
  using f32_dyadic [of "numeral n" 1] f32_dyadic [of "- numeral n" 1]
    f32_dyadic [of "numeral n" 2] f32_dyadic [of "- numeral n" 2]
    f32_dyadic [of 1 1] f32_dyadic [of 1 2]
  by simp_all

text \<open>A tie, the literal \<open>0.2f\<close>, and five times that literal.\<close>

lemma f32_tie: "f32 16777217 = Some 16777216"
  using f32_round_eq [of 24 16777217]
  by (simp add: f32_def pow2_def round_half_even_def)

lemma f32_fifth: "f32 (2 / 10) = Some (13421773 / 67108864)"
  using f32_round_eq [of "- 3" "2 / 10"]
  by (simp add: f32_def pow2_def round_half_even_def)


lemma f32_Some: "f32 x = Some y \<Longrightarrow> y = f32_round x"
  by (simp add: f32_def split: if_splits)

lemma f32_round_fixed: "f32 x = Some x \<Longrightarrow> f32_round x = x"
  by (simp add: f32_def split: if_splits)

lemma f32_round_numeral [simp]:
  "(numeral n :: int) < 2 ^ 24 \<Longrightarrow> f32_round (numeral n) = numeral n"
  "(numeral n :: int) < 2 ^ 24 \<Longrightarrow> f32_round (- numeral n) = - numeral n"
  "f32_round 0 = 0" "f32_round 1 = 1"
  "(numeral n :: int) < 2 ^ 24 \<Longrightarrow> f32_round (numeral n / 2) = numeral n / 2"
  "(numeral n :: int) < 2 ^ 24 \<Longrightarrow> f32_round (- (numeral n / 2)) = - (numeral n / 2)"
  "(numeral n :: int) < 2 ^ 24 \<Longrightarrow> f32_round (numeral n / 4) = numeral n / 4"
  "(numeral n :: int) < 2 ^ 24 \<Longrightarrow> f32_round (- (numeral n / 4)) = - (numeral n / 4)"
  "f32_round (1 / 2) = 1 / 2" "f32_round (1 / 4) = 1 / 4"
  by (simp_all add: f32_round_fixed)

lemmas float_ops = fadd_def fsub_def fmul_def fdiv_def

subsection \<open>Publishing and the blocks of the key handler\<close>

lemma cast_int32_Some:
  "cast_int32 f = Some i \<Longrightarrow> i = truncate_toward_zero f \<and> - (2 ^ 31) \<le> i \<and> i < 2 ^ 31"
  by (auto simp: cast_int32_def Let_def split: if_splits)

lemma update_ime_rect_Some:
  assumes "update_ime_rect E s = Some s'"
  shows "s' = s\<lparr>trace := trace s @ [Ime_set_input_rect (caret_screen_rect E (trace s) (view s))]\<rparr>"
  using assms
  by (auto simp: update_ime_rect_def Let_def call_def caret_screen_rect_def caret_at_def
      caret_screen_x_def caret_screen_y_def caret_screen_width_def caret_screen_height_def
      bind_eq_Some_conv float_ops dest!: cast_int32_Some f32_Some)

lemma input_rects_append [simp]: "input_rects (xs @ ys) = input_rects xs @ input_rects ys"
  by (simp add: input_rects_def)

lemma input_rects_Nil [simp]: "input_rects [] = []"
  by (simp add: input_rects_def)

lemma input_rects_Cons:
  "input_rects (c # cs) = (case c of Ime_set_input_rect r \<Rightarrow> [r] | _ \<Rightarrow> []) @ input_rects cs"
  by (simp add: input_rects_def)

lemma foldl_process_key:
  "foldl (process_key key m) s ks =
     s\<lparr>trace := trace s @ map (\<lambda>e. Editor_process_key_pressed (snd e) m)
                            (filter (\<lambda>e. key = fst e) ks)\<rparr>"
  by (induction ks arbitrary: s) (simp_all add: process_key_def call_def)

lemma input_rects_process_keys [simp]:
  "input_rects (map (\<lambda>e. Editor_process_key_pressed (snd e) m) ks) = []"
  by (induction ks) (simp_all add: input_rects_Cons)

lemma on_key_press_or_repeat_eq:
  "on_key_press_or_repeat E key mods s =
     update_ime_rect E
       (s\<lparr>allow_char := \<not> (key = GLFW_KEY_V \<and> mods AND GLFW_MOD_CONTROL \<noteq> 0),
          trace := trace s @ press_or_repeat_calls E key mods (trace s)\<rparr>)"
  by (simp add: on_key_press_or_repeat_def Let_def foldl_process_key call_def
      press_or_repeat_calls_def)

lemma input_rects_press_or_repeat_calls [simp]:
  "input_rects (press_or_repeat_calls E key mods tr) = []"
  by (simp add: press_or_repeat_calls_def input_rects_Cons)

lemma selection_to_clipboard_eq:
  "selection_to_clipboard E s = s\<lparr>trace := trace s @ clipboard_calls E (trace s)\<rparr>"
  by (simp add: selection_to_clipboard_def clipboard_calls_def Let_def call_def)

lemma trace_allow_char_commute:
  "(s::testbed_state)\<lparr>trace := t, allow_char := a\<rparr> = s\<lparr>allow_char := a, trace := t\<rparr>"
  by (cases s) simp

lemma on_key_press_eq:
  "on_key_press E key mods s =
     map_option (toggle_details key)
       (update_ime_rect E (s\<lparr>allow_char := \<not> clears_gate key mods,
                            trace := trace s @ press_calls E key mods (trace s)\<rparr>))"
  by (auto simp add: on_key_press_def Let_def call_def press_calls_def
      selection_to_clipboard_eq clears_gate_def glfw_defs trace_allow_char_commute)

lemma input_rects_clipboard_calls [simp]: "input_rects (clipboard_calls E tr) = []"
  by (simp add: clipboard_calls_def input_rects_Cons Let_def)

lemma input_rects_press_calls [simp]: "input_rects (press_calls E key mods tr) = []"
  by (simp add: press_calls_def input_rects_Cons)

lemma toggle_details_fields [simp]:
  "trace (toggle_details key s) = trace s"
  "allow_char (toggle_details key s) = allow_char s"
  "view (toggle_details key s) = view s"
  "drag_view (toggle_details key s) = drag_view s"
  "drag_text (toggle_details key s) = drag_text s"
  by (simp_all add: toggle_details_def Let_def)

lemma on_key_press_or_repeat_Some:
  assumes "on_key_press_or_repeat E key mods s = Some s'"
  shows "s' = s\<lparr>allow_char := \<not> (key = GLFW_KEY_V \<and> mods AND GLFW_MOD_CONTROL \<noteq> 0),
               trace := trace s @ press_or_repeat_calls E key mods (trace s)
                 @ [Ime_set_input_rect (caret_screen_rect E
                      (trace s @ press_or_repeat_calls E key mods (trace s)) (view s))]\<rparr>"
  using update_ime_rect_Some [OF assms [unfolded on_key_press_or_repeat_eq]] by simp

lemma on_key_press_Some:
  assumes "on_key_press E key mods s = Some s'"
  shows "allow_char s' = (\<not> clears_gate key mods)"
    and "view s' = view s" and "drag_view s' = drag_view s" and "drag_text s' = drag_text s"
    and "trace s' = trace s @ press_calls E key mods (trace s)
                 @ [Ime_set_input_rect (caret_screen_rect E
                      (trace s @ press_calls E key mods (trace s)) (view s))]"
  using assms unfolding on_key_press_eq
  by (auto dest!: update_ime_rect_Some)

lemma testbed_on_key_allow_char:
  assumes "testbed_on_key E s key action mods = Some s'"
  shows "action = GLFW_PRESS \<Longrightarrow> allow_char s' = (\<not> clears_gate key mods)"
    and "action = GLFW_REPEAT \<Longrightarrow>
           allow_char s' = (\<not> (key = GLFW_KEY_V \<and> mods AND GLFW_MOD_CONTROL \<noteq> 0))"
    and "action \<noteq> GLFW_PRESS \<Longrightarrow> action \<noteq> GLFW_REPEAT \<Longrightarrow> s' = s"
  using assms
  by (auto simp: testbed_on_key_def bind_eq_Some_conv glfw_defs
      dest!: on_key_press_Some(1) on_key_press_or_repeat_Some)

lemmas key_eval =
  testbed_on_key_def on_key_press_or_repeat_eq on_key_press_eq press_or_repeat_calls_def
  press_calls_def clipboard_calls_def clears_gate_def update_ime_rect_def cast_int32_def
  fadd_def fsub_def fmul_def fdiv_def
  truncate_toward_zero_def call_def movement_keys_def toggle_details_def edit_mods_of_def
  skb_editor_get_selection_text_utf8_def skb_editor_get_selection_text_utf8_count_def
  c_string_def

subsection \<open>The gate on character events\<close>

text \<open>
  Claim C1 asks that the character event after every command shortcut is dropped. After
  CONTROL with V is pressed the gate is open and the character \<open>v\<close> that follows reaches
  the editor: the paste branch closes the gate, and the block that runs on press only
  opens it again before it looks at the key. After CONTROL with Z is pressed the gate is
  open as well, and the \<open>z\<close> reaches the editor: undo and redo never close it. After
  CONTROL with A is pressed the gate is closed and the \<open>a\<close> is dropped, as the claim asks.
\<close>

theorem paste_press_then_char:
  "map_option allow_char
     (testbed_on_key demo_env demo_state GLFW_KEY_V GLFW_PRESS GLFW_MOD_CONTROL) = Some True
   \<and> map_option allow_char
       (testbed_on_key demo_env demo_state GLFW_KEY_Z GLFW_PRESS GLFW_MOD_CONTROL) = Some True
   \<and> map_option trace
     (run demo_env demo_state [On_key GLFW_KEY_V GLFW_PRESS GLFW_MOD_CONTROL, On_char 118])
   = Some [Editor_paste_utf8 (Some ''xyz''),
           Ime_set_input_rect \<lparr>rect_x = 400, rect_y = 116, rect_width = 0, rect_height = 20\<rparr>,
           Ime_set_input_rect \<lparr>rect_x = 400, rect_y = 116, rect_width = 0, rect_height = 20\<rparr>,
           Editor_insert_codepoint 118]
   \<and> map_option trace
       (run demo_env demo_state [On_key GLFW_KEY_Z GLFW_PRESS GLFW_MOD_CONTROL, On_char 122])
     = Some [Editor_undo,
             Ime_set_input_rect \<lparr>rect_x = 400, rect_y = 116, rect_width = 0, rect_height = 20\<rparr>,
             Ime_set_input_rect \<lparr>rect_x = 400, rect_y = 116, rect_width = 0, rect_height = 20\<rparr>,
             Editor_insert_codepoint 122]
   \<and> map_option trace
       (run demo_env demo_state [On_key GLFW_KEY_A GLFW_PRESS GLFW_MOD_CONTROL, On_char 97])
     = Some [Ime_set_input_rect \<lparr>rect_x = 400, rect_y = 116, rect_width = 0, rect_height = 20\<rparr>,
             Editor_select_all,
             Ime_set_input_rect \<lparr>rect_x = 430, rect_y = 116, rect_width = 0, rect_height = 20\<rparr>]"
  by (simp add: key_eval testbed_on_char_def demo_defs glfw_defs)

subsection \<open>Teardown\<close>

text \<open>
  Claim C4 asks for the composition to be cancelled and the handler registration to be
  cleared before the editor is destroyed. The calls of \<open>testbed_destroy\<close>, in order: the
  editor is destroyed first, the two calls to the input-method service come fourth and
  fifth.
\<close>

theorem testbed_destroy_calls:
  "trace (testbed_destroy s) =
     trace s @ [Editor_destroy, Font_collection_destroy, Temp_alloc_destroy,
                Ime_cancel, Ime_set_handler False, Skb_free]"
  by (simp add: testbed_destroy_def memset_zero_def call_def Let_def)

subsection \<open>The two drag modes\<close>

lemma testbed_on_mouse_button_right:
  assumes "testbed_on_mouse_button E s mouse_x mouse_y GLFW_MOUSE_BUTTON_RIGHT action mods = Some s'"
  shows "drag_text s' = drag_text s"
    and "action = GLFW_PRESS \<Longrightarrow> drag_view s'"
    and "action = GLFW_PRESS \<Longrightarrow> drag_view s \<Longrightarrow>
           s' = s\<lparr>trace := trace s @ [Ime_set_input_rect (caret_screen_rect E (trace s) (view s))]\<rparr>"
    and "action = GLFW_RELEASE \<Longrightarrow> \<not> drag_view s'"
  using assms
  by (auto simp: testbed_on_mouse_button_def on_right_button_def Let_def glfw_defs
      bind_eq_Some_conv dest!: update_ime_rect_Some split: if_splits)

lemma testbed_on_mouse_button_left:
  assumes "testbed_on_mouse_button E s mouse_x mouse_y GLFW_MOUSE_BUTTON_LEFT action mods = Some s'"
  shows "drag_view s' = drag_view s"
    and "action = GLFW_PRESS \<Longrightarrow> drag_text s'"
    and "action = GLFW_PRESS \<Longrightarrow> drag_text s \<Longrightarrow>
           s' = s\<lparr>trace := trace s @ [Ime_set_input_rect (caret_screen_rect E (trace s) (view s))]\<rparr>"
    and "action = GLFW_RELEASE \<Longrightarrow> \<not> drag_text s'"
  using assms
  by (auto simp: testbed_on_mouse_button_def on_left_button_def Let_def glfw_defs call_def
      bind_eq_Some_conv dest!: update_ime_rect_Some split: if_splits)

text \<open>
  Claim C2, as amended. Each drag mode is guarded against itself only. A press of the
  right button while the view is dragged, and a press of the left button while text is
  selected, change nothing but publish the input rectangle. A press of the right button
  makes \<open>drag_view\<close> true and a release makes it false, whatever \<open>drag_text\<close> is, and
  neither changes \<open>drag_text\<close>; the same holds for the left button with the two flags
  exchanged. So a press of the other button while one mode is active makes both active.
\<close>

theorem drag_modes_guard:
  assumes "testbed_on_mouse_button E s mouse_x mouse_y button action mods = Some s'"
  shows "(button = GLFW_MOUSE_BUTTON_RIGHT \<and> action = GLFW_PRESS \<and> drag_view s
            \<longrightarrow> s' = s\<lparr>trace := trace s
                  @ [Ime_set_input_rect (caret_screen_rect E (trace s) (view s))]\<rparr>)
       \<and> (button = GLFW_MOUSE_BUTTON_LEFT \<and> action = GLFW_PRESS \<and> drag_text s
            \<longrightarrow> s' = s\<lparr>trace := trace s
                  @ [Ime_set_input_rect (caret_screen_rect E (trace s) (view s))]\<rparr>)
       \<and> (button = GLFW_MOUSE_BUTTON_RIGHT \<and> action = GLFW_PRESS
            \<longrightarrow> drag_modes s' = (True, drag_text s))
       \<and> (button = GLFW_MOUSE_BUTTON_LEFT \<and> action = GLFW_PRESS
            \<longrightarrow> drag_modes s' = (drag_view s, True))
       \<and> (button = GLFW_MOUSE_BUTTON_RIGHT \<and> action = GLFW_RELEASE
            \<longrightarrow> drag_modes s' = (False, drag_text s))
       \<and> (button = GLFW_MOUSE_BUTTON_LEFT \<and> action = GLFW_RELEASE
            \<longrightarrow> drag_modes s' = (drag_view s, False))"
  using testbed_on_mouse_button_right [of E s mouse_x mouse_y action mods s']
    testbed_on_mouse_button_left [of E s mouse_x mouse_y action mods s'] assms
  by (auto simp: drag_modes_def)

text \<open>
  The theorem at work: a second press of the same button leaves the modes as they are,
  and a release ends the mode.
\<close>

theorem drag_modes_guard_witness:
  "map_option drag_modes
     (run demo_env demo_state
        [On_mouse_button 10 10 GLFW_MOUSE_BUTTON_RIGHT GLFW_PRESS 0,
         On_mouse_button 20 20 GLFW_MOUSE_BUTTON_RIGHT GLFW_PRESS 0]) = Some (True, False)
   \<and> map_option drag_modes
       (run demo_env demo_state
          [On_mouse_button 10 10 GLFW_MOUSE_BUTTON_LEFT GLFW_PRESS 0,
           On_mouse_button 20 20 GLFW_MOUSE_BUTTON_LEFT GLFW_PRESS 0]) = Some (False, True)
   \<and> map_option drag_modes
       (run demo_env demo_state
          [On_mouse_button 10 10 GLFW_MOUSE_BUTTON_LEFT GLFW_PRESS 0,
           On_mouse_button 20 20 GLFW_MOUSE_BUTTON_LEFT GLFW_RELEASE 0]) = Some (False, False)"
proof -
  obtain r1 where r1: "testbed_on_mouse_button demo_env demo_state 10 10 GLFW_MOUSE_BUTTON_RIGHT GLFW_PRESS 0 = Some r1"
    by (simp add: handler_defs demo_defs glfw_defs)
  have dr1: "drag_modes r1 = (True, False)"
    using drag_modes_guard [OF r1] by (simp add: demo_defs glfw_defs)
  then obtain r2 where r2: "testbed_on_mouse_button demo_env r1 20 20 GLFW_MOUSE_BUTTON_RIGHT GLFW_PRESS 0 = Some r2"
    using r1 by (auto simp add: handler_defs demo_defs glfw_defs)
  have dr2: "drag_modes r2 = (True, False)"
    using drag_modes_guard [OF r2] dr1 by (simp add: drag_modes_def)
  obtain l1 where l1: "testbed_on_mouse_button demo_env demo_state 10 10 GLFW_MOUSE_BUTTON_LEFT GLFW_PRESS 0 = Some l1"
    by (simp add: handler_defs demo_defs glfw_defs)
  have dl1: "drag_modes l1 = (False, True)"
    using drag_modes_guard [OF l1] by (simp add: demo_defs glfw_defs)
  obtain l2 where l2: "testbed_on_mouse_button demo_env l1 20 20 GLFW_MOUSE_BUTTON_LEFT GLFW_PRESS 0 = Some l2"
    using l1 by (auto simp add: handler_defs demo_defs glfw_defs)
  have dl2: "drag_modes l2 = (False, True)"
    using drag_modes_guard [OF l2] dl1 by (simp add: drag_modes_def)
  obtain l3 where l3: "testbed_on_mouse_button demo_env l1 20 20 GLFW_MOUSE_BUTTON_LEFT GLFW_RELEASE 0 = Some l3"
    using l1 by (auto simp add: handler_defs demo_defs glfw_defs)
  have dl3: "drag_modes l3 = (False, False)"
    using drag_modes_guard [OF l3] dl1 by (simp add: drag_modes_def glfw_defs)
  show ?thesis
    using r1 r2 dr2 l1 l2 dl2 l3 dl3 by simp
qed

text \<open>
  Claim C2 as stated fails: a press of the left button and then a press of the right
  button make both drag modes active.
\<close>

theorem both_drags_counterexample:
  "map_option drag_modes
     (run demo_env demo_state
        [On_mouse_button 10 10 GLFW_MOUSE_BUTTON_LEFT GLFW_PRESS 0,
         On_mouse_button 10 10 GLFW_MOUSE_BUTTON_RIGHT GLFW_PRESS 0])
   = Some (True, True)"
  by (simp add: handler_defs demo_defs glfw_defs Let_def)

subsection \<open>The published input rectangle\<close>

lemma truncation_of_truncate: "truncation_of (truncate_toward_zero f) f"
proof (cases "0 \<le> f")
  case True
  have z: "0 \<le> real_of_int \<lfloor>f\<rfloor>"
    using True by simp
  have le: "real_of_int \<lfloor>f\<rfloor> \<le> f" and lt: "f < real_of_int \<lfloor>f\<rfloor> + 1"
    by linarith+
  have "\<bar>real_of_int \<lfloor>f\<rfloor>\<bar> \<le> \<bar>f\<bar>"
    using True z le by linarith
  moreover have "\<bar>f - real_of_int \<lfloor>f\<rfloor>\<bar> < 1"
    using le lt by linarith
  moreover have "0 \<le> real_of_int \<lfloor>f\<rfloor> * f"
    using True z by simp
  ultimately show ?thesis
    unfolding truncation_of_def truncate_toward_zero_def using True by simp
next
  case False
  have z: "real_of_int \<lceil>f\<rceil> \<le> 0"
    using False by (simp add: ceiling_le_zero)
  have le: "f \<le> real_of_int \<lceil>f\<rceil>" and lt: "real_of_int \<lceil>f\<rceil> < f + 1"
    by linarith+
  have "\<bar>real_of_int \<lceil>f\<rceil>\<bar> \<le> \<bar>f\<bar>"
    using False z le by linarith
  moreover have "\<bar>f - real_of_int \<lceil>f\<rceil>\<bar> < 1"
    using le lt by linarith
  moreover have "0 \<le> real_of_int \<lceil>f\<rceil> * f"
    using False z by (simp add: mult_nonpos_nonpos)
  ultimately show ?thesis
    unfolding truncation_of_def truncate_toward_zero_def using False by simp
qed

lemma not_Ints_ne: "f \<notin> \<int> \<Longrightarrow> real_of_int i \<noteq> f"
  by auto

lemma ime_handler_Some:
  assumes "ime_handler E s event text text_length cursor = Some s'"
  shows "s' = s\<lparr>trace := trace s @ [ime_call event text text_length cursor,
           Ime_set_input_rect (caret_screen_rect E
             (trace s @ [ime_call event text text_length cursor]) (view s))]\<rparr>"
  using assms
  by (cases event) (auto simp: ime_handler_def ime_call_def call_def dest!: update_ime_rect_Some)

lemma testbed_on_key_repeat_Some:
  assumes "testbed_on_key E s key GLFW_REPEAT mods = Some s'"
  shows "trace s' = trace s @ press_or_repeat_calls E key mods (trace s)
           @ [Ime_set_input_rect (caret_screen_rect E
                (trace s @ press_or_repeat_calls E key mods (trace s)) (view s))]"
    and "view s' = view s"
  using assms
  by (auto simp: testbed_on_key_def glfw_defs dest!: on_key_press_or_repeat_Some)

lemma testbed_on_key_press_Some:
  assumes "testbed_on_key E s key GLFW_PRESS mods = Some s'"
  defines "tr1 \<equiv> trace s @ press_or_repeat_calls E key mods (trace s)
           @ [Ime_set_input_rect (caret_screen_rect E
                (trace s @ press_or_repeat_calls E key mods (trace s)) (view s))]"
  shows "trace s' = tr1 @ press_calls E key mods tr1
             @ [Ime_set_input_rect (caret_screen_rect E (tr1 @ press_calls E key mods tr1) (view s))]"
    and "view s' = view s"
proof -
  from assms(1) obtain s1 where s1: "on_key_press_or_repeat E key mods s = Some s1"
    and s': "on_key_press E key mods s1 = Some s'"
    by (auto simp: testbed_on_key_def glfw_defs bind_eq_Some_conv)
  have t1: "trace s1 = tr1" and v1: "view s1 = view s"
    using on_key_press_or_repeat_Some [OF s1] by (simp_all add: tr1_def)
  show "trace s' = tr1 @ press_calls E key mods tr1
             @ [Ime_set_input_rect (caret_screen_rect E (tr1 @ press_calls E key mods tr1) (view s))]"
    using on_key_press_Some(5) [OF s'] t1 v1 by simp
  show "view s' = view s"
    using on_key_press_Some(2) [OF s'] v1 by simp
qed

lemma testbed_on_mouse_button_calls:
  assumes "testbed_on_mouse_button E s mouse_x mouse_y button action mods = Some s'"
  shows "\<exists>cs. trace s' = trace s @ cs
               @ [Ime_set_input_rect (caret_screen_rect E (trace s @ cs) (view s'))]
             \<and> input_rects cs = []"
proof -
  let ?s1 = "if button = GLFW_MOUSE_BUTTON_RIGHT
             then on_right_button action mouse_x mouse_y s else s"
  from assms obtain s2
    where l: "(if button = GLFW_MOUSE_BUTTON_LEFT
               then on_left_button E action (edit_mods_of mods) mouse_x mouse_y ?s1
               else Some ?s1) = Some s2"
      and u: "update_ime_rect E s2 = Some s'"
    by (auto simp: testbed_on_mouse_button_def Let_def bind_eq_Some_conv)
  have t1: "trace ?s1 = trace s"
    by (simp add: on_right_button_def Let_def)
  have "\<exists>cs. trace s2 = trace ?s1 @ cs \<and> input_rects cs = []"
    using l
    by (auto simp: on_left_button_def Let_def call_def input_rects_Cons bind_eq_Some_conv
        split: if_splits)
  then obtain cs where cs: "trace s2 = trace s @ cs" "input_rects cs = []"
    using t1 by auto
  from update_ime_rect_Some [OF u] cs show ?thesis
    by auto
qed

lemma testbed_on_mouse_move_Some:
  assumes "testbed_on_mouse_move E s mouse_x mouse_y = Some s'"
  shows "\<not> drag_view s \<Longrightarrow> \<not> drag_text s \<Longrightarrow> s' = s"
    and "drag_view s \<Longrightarrow> \<not> drag_text s \<Longrightarrow>
           view_drag_move (view s) mouse_x mouse_y = Some (view s')
           \<and> trace s' = trace s @ [Ime_set_input_rect (caret_screen_rect E (trace s) (view s'))]"
    and "\<not> drag_view s \<Longrightarrow> drag_text s \<Longrightarrow>
           \<exists>x y. transform_mouse_pos s mouse_x mouse_y = Some (x, y) \<and> view s' = view s
             \<and> trace s' = trace s @ [Editor_process_mouse_drag x y,
                  Ime_set_input_rect (caret_screen_rect E
                    (trace s @ [Editor_process_mouse_drag x y]) (view s))]"
    and "drag_view s \<Longrightarrow> drag_text s \<Longrightarrow>
           \<exists>x y. view_drag_move (view s) mouse_x mouse_y = Some (view s')
             \<and> trace s' = trace s @ [Ime_set_input_rect (caret_screen_rect E (trace s) (view s')),
                  Editor_process_mouse_drag x y,
                  Ime_set_input_rect (caret_screen_rect E
                    (trace s @ [Ime_set_input_rect (caret_screen_rect E (trace s) (view s')),
                                Editor_process_mouse_drag x y]) (view s'))]"
  using assms
  by (auto simp: testbed_on_mouse_move_def bind_eq_Some_conv call_def
      dest!: update_ime_rect_Some)

text \<open>
  Claim C3, as amended. An input-method event (composition, commit or cancel) makes one
  call to the editor and then publishes the input rectangle once. A key repeat publishes
  it once, after the commands of the key. A key press publishes it twice: once after the
  commands that run on press and repeat, and once more after the commands that run on
  press only. A mouse-button event publishes it once, after the click it may hand to the
  editor. A mouse move publishes it once after the drag-extend command that it hands to
  the editor while text is selected, and once before that, after the view has moved,
  while the view is dragged. Every published rectangle consists of the single-precision
  values of \<open>center + caret.position * scale\<close> and \<open>caret.size * scale\<close>, truncated toward
  zero, for the visual caret at the end of the selection at the moment of the publish.
\<close>

theorem input_rect_publishes:
  "(ime_handler E s event str text_length cursor = Some s' \<longrightarrow>
      new_calls s s' = [ime_call event str text_length cursor,
                        Ime_set_input_rect (caret_screen_rect E (butlast (trace s')) (view s))])
   \<and> (testbed_on_key E s key GLFW_REPEAT mods = Some s' \<longrightarrow>
        input_rects (new_calls s s') = [caret_screen_rect E (butlast (trace s')) (view s)]
        \<and> last (trace s') = Ime_set_input_rect (caret_screen_rect E (butlast (trace s')) (view s)))
   \<and> (testbed_on_key E s key GLFW_PRESS mods = Some s' \<longrightarrow>
        input_rects (new_calls s s') =
          [caret_screen_rect E (trace s @ press_or_repeat_calls E key mods (trace s)) (view s),
           caret_screen_rect E (butlast (trace s')) (view s)]
        \<and> last (trace s') = Ime_set_input_rect (caret_screen_rect E (butlast (trace s')) (view s)))
   \<and> (testbed_on_mouse_button E s mouse_x mouse_y button action mods = Some s' \<longrightarrow>
        input_rects (new_calls s s') = [caret_screen_rect E (butlast (trace s')) (view s')]
        \<and> last (trace s') = Ime_set_input_rect (caret_screen_rect E (butlast (trace s')) (view s')))
   \<and> (testbed_on_mouse_move E s mouse_x mouse_y = Some s' \<and> drag_text s \<and> \<not> drag_view s \<longrightarrow>
        (\<exists>x y. transform_mouse_pos s mouse_x mouse_y = Some (x, y)
           \<and> new_calls s s' =
               [Editor_process_mouse_drag x y,
                Ime_set_input_rect (caret_screen_rect E (butlast (trace s')) (view s))]))
   \<and> (testbed_on_mouse_move E s mouse_x mouse_y = Some s' \<and> drag_text s \<and> drag_view s \<longrightarrow>
        (\<exists>x y. new_calls s s' =
               [Ime_set_input_rect (caret_screen_rect E (trace s) (view s')),
                Editor_process_mouse_drag x y,
                Ime_set_input_rect (caret_screen_rect E (butlast (trace s')) (view s'))]))
   \<and> (testbed_on_mouse_move E s mouse_x mouse_y = Some s' \<and> \<not> drag_text s \<and> drag_view s \<longrightarrow>
        new_calls s s' = [Ime_set_input_rect (caret_screen_rect E (trace s) (view s'))])
   \<and> (testbed_on_mouse_move E s mouse_x mouse_y = Some s' \<and> \<not> drag_text s \<and> \<not> drag_view s \<longrightarrow>
        new_calls s s' = [])"
proof (intro conjI impI)
  assume "ime_handler E s event str text_length cursor = Some s'"
  from ime_handler_Some [OF this]
  show "new_calls s s' = [ime_call event str text_length cursor,
          Ime_set_input_rect (caret_screen_rect E (butlast (trace s')) (view s))]"
    by (simp add: new_calls_def butlast_append)
next
  assume a: "testbed_on_key E s key GLFW_REPEAT mods = Some s'"
  from testbed_on_key_repeat_Some(1) [OF a]
  show "input_rects (new_calls s s') = [caret_screen_rect E (butlast (trace s')) (view s)]"
    and "last (trace s') = Ime_set_input_rect (caret_screen_rect E (butlast (trace s')) (view s))"
    by (simp_all add: new_calls_def butlast_append input_rects_Cons)
next
  assume a: "testbed_on_key E s key GLFW_PRESS mods = Some s'"
  from testbed_on_key_press_Some(1) [OF a]
  show "input_rects (new_calls s s') =
          [caret_screen_rect E (trace s @ press_or_repeat_calls E key mods (trace s)) (view s),
           caret_screen_rect E (butlast (trace s')) (view s)]"
    and "last (trace s') = Ime_set_input_rect (caret_screen_rect E (butlast (trace s')) (view s))"
    by (simp_all add: new_calls_def butlast_append input_rects_Cons)
next
  assume a: "testbed_on_mouse_button E s mouse_x mouse_y button action mods = Some s'"
  from testbed_on_mouse_button_calls [OF a]
  show "input_rects (new_calls s s') = [caret_screen_rect E (butlast (trace s')) (view s')]"
    and "last (trace s') = Ime_set_input_rect (caret_screen_rect E (butlast (trace s')) (view s'))"
    by (auto simp add: new_calls_def butlast_append input_rects_Cons)
next
  assume a: "testbed_on_mouse_move E s mouse_x mouse_y = Some s' \<and> drag_text s \<and> \<not> drag_view s"
  then show "\<exists>x y. transform_mouse_pos s mouse_x mouse_y = Some (x, y)
           \<and> new_calls s s' =
               [Editor_process_mouse_drag x y,
                Ime_set_input_rect (caret_screen_rect E (butlast (trace s')) (view s))]"
    using testbed_on_mouse_move_Some(3) [of E s mouse_x mouse_y s']
    by (auto simp add: new_calls_def butlast_append)
next
  assume a: "testbed_on_mouse_move E s mouse_x mouse_y = Some s' \<and> drag_text s \<and> drag_view s"
  then show "\<exists>x y. new_calls s s' =
               [Ime_set_input_rect (caret_screen_rect E (trace s) (view s')),
                Editor_process_mouse_drag x y,
                Ime_set_input_rect (caret_screen_rect E (butlast (trace s')) (view s'))]"
    using testbed_on_mouse_move_Some(4) [of E s mouse_x mouse_y s']
    by (auto simp add: new_calls_def butlast_append)
next
  assume a: "testbed_on_mouse_move E s mouse_x mouse_y = Some s' \<and> \<not> drag_text s \<and> drag_view s"
  then show "new_calls s s' = [Ime_set_input_rect (caret_screen_rect E (trace s) (view s'))]"
    using testbed_on_mouse_move_Some(2) [of E s mouse_x mouse_y s']
    by (auto simp add: new_calls_def)
next
  assume a: "testbed_on_mouse_move E s mouse_x mouse_y = Some s' \<and> \<not> drag_text s \<and> \<not> drag_view s"
  then show "new_calls s s' = []"
    using testbed_on_mouse_move_Some(1) [of E s mouse_x mouse_y s']
    by (auto simp add: new_calls_def)
qed

text \<open>
  The theorem at work, with the calls of each event: one publish for a commit, for a
  repeated key and for a mouse button, two for select-all, the second with the caret that
  select-all has moved, and one for a mouse move that extends the selection which a press
  of the left button has started.
\<close>

theorem input_rect_publishes_witness:
  "map_option trace (ime_handler demo_env demo_state IME_EVENT_COMMIT [97] 1 0)
     = Some [Editor_commit_composition_utf32 [97] 1,
             Ime_set_input_rect \<lparr>rect_x = 400, rect_y = 116, rect_width = 0, rect_height = 20\<rparr>]
   \<and> map_option trace (testbed_on_key demo_env demo_state GLFW_KEY_LEFT GLFW_REPEAT 0)
     = Some [Editor_process_key_pressed SKB_KEY_LEFT {},
             Ime_set_input_rect \<lparr>rect_x = 400, rect_y = 116, rect_width = 0, rect_height = 20\<rparr>]
   \<and> map_option trace (testbed_on_key demo_env demo_state GLFW_KEY_A GLFW_PRESS GLFW_MOD_CONTROL)
     = Some [Ime_set_input_rect \<lparr>rect_x = 400, rect_y = 116, rect_width = 0, rect_height = 20\<rparr>,
             Editor_select_all,
             Ime_set_input_rect \<lparr>rect_x = 430, rect_y = 116, rect_width = 0, rect_height = 20\<rparr>]
   \<and> map_option trace
       (testbed_on_mouse_button demo_env demo_state 10 10 GLFW_MOUSE_BUTTON_RIGHT GLFW_PRESS 0)
     = Some [Ime_set_input_rect \<lparr>rect_x = 400, rect_y = 116, rect_width = 0, rect_height = 20\<rparr>]
   \<and> map_option trace
       (run demo_env demo_state
          [On_mouse_button 10 10 GLFW_MOUSE_BUTTON_LEFT GLFW_PRESS 0, On_mouse_move 20 20])
     = Some [Ime_cancel, Editor_process_mouse_click (- 390) (- 110) {} 1,
             Ime_set_input_rect \<lparr>rect_x = 400, rect_y = 116, rect_width = 0, rect_height = 20\<rparr>,
             Editor_process_mouse_drag (- 380) (- 100),
             Ime_set_input_rect \<lparr>rect_x = 400, rect_y = 116, rect_width = 0, rect_height = 20\<rparr>]"
proof -
  obtain si where i: "ime_handler demo_env demo_state IME_EVENT_COMMIT [97] 1 0 = Some si"
    by (simp add: handler_defs demo_defs glfw_defs)
  obtain sr where r: "testbed_on_key demo_env demo_state GLFW_KEY_LEFT GLFW_REPEAT 0 = Some sr"
    by (simp add: handler_defs demo_defs glfw_defs)
  obtain sp where p: "testbed_on_key demo_env demo_state GLFW_KEY_A GLFW_PRESS GLFW_MOD_CONTROL = Some sp"
    by (simp add: handler_defs demo_defs glfw_defs)
  obtain sm where m: "testbed_on_mouse_button demo_env demo_state 10 10 GLFW_MOUSE_BUTTON_RIGHT GLFW_PRESS 0 = Some sm"
    by (simp add: handler_defs demo_defs glfw_defs)
  obtain sl where l: "testbed_on_mouse_button demo_env demo_state 10 10 GLFW_MOUSE_BUTTON_LEFT GLFW_PRESS 0 = Some sl"
    and sl: "drag_text sl" "\<not> drag_view sl" "view sl = view demo_state"
      "trace sl = [Ime_cancel, Editor_process_mouse_click (- 390) (- 110) {} 1,
         Ime_set_input_rect \<lparr>rect_x = 400, rect_y = 116, rect_width = 0, rect_height = 20\<rparr>]"
    by (simp add: handler_defs demo_defs glfw_defs)
  obtain sd where d: "testbed_on_mouse_move demo_env sl 20 20 = Some sd"
    by (simp add: testbed_on_mouse_move_def handler_defs sl demo_defs)
  have "length (input_rects (new_calls demo_state si)) = 1"
    using input_rect_publishes [where E = demo_env and s = demo_state and s' = si
        and event = IME_EVENT_COMMIT and str = "[97]" and text_length = 1 and cursor = 0] i
    by (simp add: input_rects_Cons ime_call_def)
  moreover have "length (input_rects (new_calls demo_state sr)) = 1"
    using input_rect_publishes [where E = demo_env and s = demo_state and s' = sr
        and key = GLFW_KEY_LEFT and mods = 0] r
    by simp
  moreover have "length (input_rects (new_calls demo_state sp)) = 2"
    using input_rect_publishes [where E = demo_env and s = demo_state and s' = sp
        and key = GLFW_KEY_A and mods = GLFW_MOD_CONTROL] p
    by simp
  moreover have "length (input_rects (new_calls demo_state sm)) = 1"
    using input_rect_publishes [where E = demo_env and s = demo_state and s' = sm
        and mouse_x = 10 and mouse_y = 10 and button = GLFW_MOUSE_BUTTON_RIGHT
        and action = GLFW_PRESS and mods = 0] m
    by simp
  moreover have "length (input_rects (new_calls sl sd)) = 1"
    using input_rect_publishes [where E = demo_env and s = sl and s' = sd
        and mouse_x = 20 and mouse_y = 20 and event = IME_EVENT_COMMIT and str = "[]"
        and text_length = 0 and cursor = 0 and key = 0 and mods = 0 and button = 0
        and action = 0] d sl(1,2)
    by (auto simp add: input_rects_Cons)
  ultimately show ?thesis
    using i r p m l d sl
    by (auto simp add: testbed_on_mouse_move_def handler_defs demo_defs glfw_defs)
qed

text \<open>
  Claim C3 as stated fails for a pressed key: the left-arrow key moves the caret once and
  the input rectangle is published twice.
\<close>

theorem key_press_publishes_twice_counterexample:
  "map_option trace (testbed_on_key demo_env demo_state GLFW_KEY_LEFT GLFW_PRESS 0)
     = Some [Editor_process_key_pressed SKB_KEY_LEFT {},
             Ime_set_input_rect \<lparr>rect_x = 400, rect_y = 116, rect_width = 0, rect_height = 20\<rparr>,
             Ime_set_input_rect \<lparr>rect_x = 400, rect_y = 116, rect_width = 0, rect_height = 20\<rparr>]"
  by (simp add: handler_defs demo_defs glfw_defs)

text \<open>
  Claim C10. When \<open>update_ime_rect\<close> returns, it has made one call, the publish of a
  rectangle with integer components, each the truncation toward zero of the float that
  the source casts: the single-precision values of \<open>cx + caret.x * scale\<close>,
  \<open>cy + caret.y * scale\<close>, \<open>caret.width * scale\<close> and \<open>caret.height * scale\<close>. A
  position that is not a whole number is never published as it is.
\<close>

theorem input_rect_truncates:
  assumes "update_ime_rect E s = Some s'"
  shows "\<exists>r. new_calls s s' = [Ime_set_input_rect r]
     \<and> truncation_of (rect_x r) (caret_screen_x E (trace s) (view s))
     \<and> truncation_of (rect_y r) (caret_screen_y E (trace s) (view s))
     \<and> truncation_of (rect_width r) (caret_screen_width E (trace s) (view s))
     \<and> truncation_of (rect_height r) (caret_screen_height E (trace s) (view s))
     \<and> (caret_screen_x E (trace s) (view s) \<notin> \<int> \<longrightarrow>
          real_of_int (rect_x r) \<noteq> caret_screen_x E (trace s) (view s))
     \<and> (caret_screen_y E (trace s) (view s) \<notin> \<int> \<longrightarrow>
          real_of_int (rect_y r) \<noteq> caret_screen_y E (trace s) (view s))"
  using update_ime_rect_Some [OF assms]
  by (auto simp: new_calls_def caret_screen_rect_def truncation_of_truncate not_Ints_ne)

text \<open>
  The theorem at work. On a view left of and above the origin \<open>-399.75\<close> is published
  as \<open>-399\<close> and \<open>-121.75\<close> as \<open>-121\<close>, toward zero and not downward. On a view far to
  the right the sum \<open>16777216 + 0.5 * 2\<close> is rounded to the single \<open>16777216\<close> before it is
  cast, and that is what is published.
\<close>

theorem input_rect_truncates_witness:
  "map_option trace (update_ime_rect demo_env demo_state_left)
     = Some [Ime_set_input_rect
               \<lparr>rect_x = - 399, rect_y = - 121, rect_width = 0, rect_height = 10\<rparr>]
   \<and> caret_screen_x demo_env [] (view demo_state_left) = - 1599 / 4
   \<and> caret_screen_y demo_env [] (view demo_state_left) = - 487 / 4
   \<and> truncation_of (- 399) (- 1599 / 4)
   \<and> truncation_of (- 121) (- 487 / 4)
   \<and> map_option trace (update_ime_rect demo_env demo_state_far)
     = Some [Ime_set_input_rect
               \<lparr>rect_x = 16777216, rect_y = 113, rect_width = 0, rect_height = 40\<rparr>]
   \<and> caret_screen_x demo_env [] (view demo_state_far) = 16777216"
proof -
  have u: "update_ime_rect demo_env demo_state_left
     = Some (demo_state_left\<lparr>trace := [Ime_set_input_rect
               \<lparr>rect_x = - 399, rect_y = - 121, rect_width = 0, rect_height = 10\<rparr>]\<rparr>)"
    by (simp add: handler_defs demo_defs demo_state_left_def ceiling_def)
  have w: "update_ime_rect demo_env demo_state_far
     = Some (demo_state_far\<lparr>trace := [Ime_set_input_rect
               \<lparr>rect_x = 16777216, rect_y = 113, rect_width = 0, rect_height = 40\<rparr>]\<rparr>)"
    by (simp add: handler_defs demo_defs demo_state_far_def f32_tie)
  have x: "caret_screen_x demo_env [] (view demo_state_left) = - 1599 / 4"
    and y: "caret_screen_y demo_env [] (view demo_state_left) = - 487 / 4"
    by (simp_all add: caret_screen_x_def caret_screen_y_def caret_at_def demo_defs
        demo_state_left_def)
  have z: "caret_screen_x demo_env [] (view demo_state_far) = 16777216"
    using f32_Some [OF f32_tie]
    by (simp add: caret_screen_x_def caret_at_def demo_defs demo_state_far_def)
  show ?thesis
    using input_rect_truncates [OF u] input_rect_truncates [OF w] u w x y z
    by (simp add: new_calls_def demo_defs demo_state_left_def demo_state_far_def)
qed

subsection \<open>The markers of a caret boundary\<close>

lemma boundary_tris_texts:
  "length (filter is_tri (fst (draw_caret_boundary E ox top_y bot_y l b)))
     = length (filter is_text (fst (draw_caret_boundary E ox top_y bot_y l b)))"
  by (simp add: draw_caret_boundary_def Let_def)

lemma markers_boundary:
  "markers (fst (draw_caret_boundary E ox top_y bot_y l b)) = resolve_caret E b"
  by (simp add: draw_caret_boundary_def Let_def markers_def resolve_caret_def label_of_def along_def)

lemma markers_append:
  "length (filter is_tri xs) = length (filter is_text xs) \<Longrightarrow>
   markers (xs @ ys) = markers xs @ markers ys"
  by (simp add: markers_def)

lemma markers_boundaries:
  "markers (draw_caret_boundaries E ox top_y bot_y l bs) = concat (map (resolve_caret E) bs)"
proof (induction bs arbitrary: l)
  case Nil
  show ?case by (simp add: markers_def)
next
  case (Cons b bs)
  obtain calls l' where d: "draw_caret_boundary E ox top_y bot_y l b = (calls, l')"
    by (cases "draw_caret_boundary E ox top_y bot_y l b")
  have "length (filter is_tri calls) = length (filter is_text calls)"
    using boundary_tris_texts [of E ox top_y bot_y l b] d by simp
  moreover have "markers calls = resolve_caret E b"
    using markers_boundary [of E ox top_y bot_y l b] d by simp
  ultimately show ?case
    using d Cons.IH [of l'] by (simp add: markers_append)
qed

text \<open>
  Claim C5. The markers drawn for a line are those of its boundaries, one after the
  other. A boundary where the direction changes has two markers, the first to the left
  with the affinity and offset of \<open>left\<close>, the second to the right with those of \<open>right\<close>.
  Any other boundary has one marker: along the direction of \<open>right\<close> and labelled with
  \<open>right\<close> when the affinity of \<open>right\<close> is trailing, along the direction of \<open>left\<close> and
  labelled with \<open>left\<close> otherwise. No boundary has more than two.
\<close>

theorem caret_markers:
  "markers (draw_caret_details E s ox top_y bot_y bs)
     = (if show_caret_details s then concat (map (resolve_caret E) bs) else [])
   \<and> markers (fst (draw_caret_boundary E ox top_y bot_y l b)) =
       (if direction (left b) \<noteq> direction (right b)
        then [(- 5, affinity_str (affinity (text_position (left b))), offset (text_position (left b))),
              (5, affinity_str (affinity (text_position (right b))), offset (text_position (right b)))]
        else if affinity (text_position (right b)) = SKB_AFFINITY_TRAILING
        then [(if skb_is_rtl E (direction (right b)) then - 5 else 5,
               affinity_str (affinity (text_position (right b))), offset (text_position (right b)))]
        else [(if skb_is_rtl E (direction (left b)) then - 5 else 5,
               affinity_str (affinity (text_position (left b))), offset (text_position (left b)))])
   \<and> length (filter is_tri (fst (draw_caret_boundary E ox top_y bot_y l b)))
       = (if direction (left b) \<noteq> direction (right b) then 2 else 1)
   \<and> length (filter is_text (fst (draw_caret_boundary E ox top_y bot_y l b)))
       = (if direction (left b) \<noteq> direction (right b) then 2 else 1)
   \<and> length (resolve_caret E b) \<le> 2"
  by (simp add: draw_caret_details_def markers_boundaries markers_boundary)
     (simp add: resolve_caret_def label_of_def along_def draw_caret_boundary_def Let_def markers_def)

text \<open>The theorem at work on a line of six boundaries.\<close>

theorem caret_markers_witness:
  "markers (draw_caret_details demo_env demo_state 0 100 200 demo_line)
     = [(5, ''TR'', 7), (- 5, ''TR'', 0), (5, ''TR'', 5), (- 5, ''LE'', 4), (5, ''LE'', 1),
        (- 5, ''TR'', 3), (- 5, ''LE'', 2), (- 5, ''LE'', 1)]"
  using caret_markers [of demo_env demo_state 0 100 200 demo_line]
  by (simp add: resolve_caret_def label_of_def along_def demo_defs demo_boundary_def demo_line_def)

subsection \<open>The offset of the left label\<close>

lemma snd_draw_caret_boundary:
  "snd (draw_caret_boundary E ox top_y bot_y l b) = offset_after b"
  by (simp add: draw_caret_boundary_def Let_def offset_after_def)

lemma draw_caret_boundaries_snoc:
  "draw_caret_boundaries E ox top_y bot_y l (bs @ [b]) =
     draw_caret_boundaries E ox top_y bot_y l bs
     @ fst (draw_caret_boundary E ox top_y bot_y (if bs = [] then l else offset_after (last bs)) b)"
proof (induction bs arbitrary: l)
  case Nil
  show ?case by (simp split: prod.split)
next
  case (Cons a bs)
  show ?case
    using Cons.IH [of "offset_after a"] snd_draw_caret_boundary [of E ox top_y bot_y l a]
    by (auto split: prod.split)
qed

lemma label_heights:
  "c \<in> set (fst (draw_caret_boundary E ox top_y bot_y l b)) \<Longrightarrow> is_text c \<Longrightarrow>
     text_y c = (if text_align c = RENDER_ALIGN_END then top_y + 20 + l else top_y + 20)"
  by (auto simp: draw_caret_boundary_def Let_def split: if_splits)

text \<open>
  Claim C6, as amended. The offset that a boundary computes is carried to the next
  boundary of the line. The left label of a boundary (aligned at its end, drawn where the
  direction changes and in the leading branch) is drawn at \<open>top_y + 20\<close> plus the offset
  carried from the boundaries before it; the right label (aligned at its start) is
  always drawn at \<open>top_y + 20\<close>. The carried offset is 0 at the first boundary of a line;
  after a boundary where the direction changes, and after a trailing boundary, it is 15
  when the advance of that boundary is less than 40 and 0 otherwise; after a leading
  boundary it is 0.
\<close>

theorem left_label_offset:
  "draw_caret_details E s ox top_y bot_y (bs @ [b]) =
     (if show_caret_details s
      then draw_caret_details E s ox top_y bot_y bs
           @ fst (draw_caret_boundary E ox top_y bot_y (carried_offset bs) b)
      else [])
   \<and> carried_offset [] = 0
   \<and> carried_offset (bs @ [b]) =
       (if direction (left b) \<noteq> direction (right b)
           \<or> affinity (text_position (right b)) = SKB_AFFINITY_TRAILING
        then (if boundary_advance b < 40 then 15 else 0)
        else 0)
   \<and> (\<forall>c \<in> set (fst (draw_caret_boundary E ox top_y bot_y l b)). is_text c \<longrightarrow>
         text_y c = (if text_align c = RENDER_ALIGN_END then top_y + 20 + l else top_y + 20))
   \<and> map text_align (filter is_text (fst (draw_caret_boundary E ox top_y bot_y l b))) =
       (if direction (left b) \<noteq> direction (right b)
        then [RENDER_ALIGN_END, RENDER_ALIGN_START]
        else if affinity (text_position (right b)) = SKB_AFFINITY_TRAILING
        then [RENDER_ALIGN_START] else [RENDER_ALIGN_END])"
  using label_heights [of _ E ox top_y bot_y l b]
  by (auto simp: draw_caret_details_def draw_caret_boundaries_snoc carried_offset_def
      offset_after_def) (simp_all add: draw_caret_boundary_def Let_def)

text \<open>
  The theorem at work: the offset 15 of a first boundary with advance 10 raises the left
  label of the second boundary to 135.
\<close>

theorem left_label_offset_witness:
  "carried_offset
     [demo_boundary 0 10 1 SKB_AFFINITY_TRAILING 0 2 SKB_AFFINITY_TRAILING 5] = 15
   \<and> draw_caret_details demo_env demo_state 0 100 200
       ([demo_boundary 0 10 1 SKB_AFFINITY_TRAILING 0 2 SKB_AFFINITY_TRAILING 5]
        @ [demo_boundary 10 50 2 SKB_AFFINITY_LEADING 4 1 SKB_AFFINITY_LEADING 1])
     = draw_caret_details demo_env demo_state 0 100 200
         [demo_boundary 0 10 1 SKB_AFFINITY_TRAILING 0 2 SKB_AFFINITY_TRAILING 5]
       @ [Debug_render_line 10 200 10 105 caret_color (- 1),
          Debug_render_tri 10 105 5 105 10 110 caret2_color,
          Debug_render_tri 10 105 15 105 10 110 caret_color,
          Debug_render_text 7 135 11 RENDER_ALIGN_END caret2_color ''LE'' 4,
          Debug_render_text 13 120 11 RENDER_ALIGN_START caret_color ''LE'' 1]
   \<and> text_y (Debug_render_text 7 135 11 RENDER_ALIGN_END caret2_color ''LE'' 4) = 100 + 20 + 15"
proof -
  let ?b1 = "demo_boundary 0 10 1 SKB_AFFINITY_TRAILING 0 2 SKB_AFFINITY_TRAILING 5"
  let ?b2 = "demo_boundary 10 50 2 SKB_AFFINITY_LEADING 4 1 SKB_AFFINITY_LEADING 1"
  note t = left_label_offset [of demo_env demo_state 0 100 200 "[?b1]" ?b2 15]
  have c: "carried_offset ([] @ [?b1]) = 15"
    using left_label_offset [of demo_env demo_state 0 100 200 "[]" ?b1 0]
    by (simp add: demo_boundary_def)
  have d: "fst (draw_caret_boundary demo_env 0 100 200 15 ?b2)
      = [Debug_render_line 10 200 10 105 caret_color (- 1),
          Debug_render_tri 10 105 5 105 10 110 caret2_color,
          Debug_render_tri 10 105 15 105 10 110 caret_color,
          Debug_render_text 7 135 11 RENDER_ALIGN_END caret2_color ''LE'' 4,
          Debug_render_text 13 120 11 RENDER_ALIGN_START caret_color ''LE'' 1]"
    by (simp add: draw_caret_boundary_def demo_boundary_def)
  have "draw_caret_details demo_env demo_state 0 100 200 ([?b1] @ [?b2])
     = draw_caret_details demo_env demo_state 0 100 200 [?b1]
       @ fst (draw_caret_boundary demo_env 0 100 200 (carried_offset [?b1]) ?b2)"
    using t by (simp add: demo_state_def)
  moreover have "\<forall>c \<in> set (fst (draw_caret_boundary demo_env 0 100 200 15 ?b2)). is_text c \<longrightarrow>
         text_y c = (if text_align c = RENDER_ALIGN_END then 100 + 20 + 15 else 100 + 20)"
    using t by blast
  ultimately show ?thesis
    using c d by simp
qed

text \<open>
  Claim C6 as stated fails. The first boundary changes direction and has advance 10, yet
  its own left label is drawn at 120, without offset; the second boundary changes
  direction and has advance 50, yet its left label is drawn at 135, with the offset of
  the first.
\<close>

theorem left_label_offset_counterexample:
  "draw_caret_details demo_env demo_state 0 100 200
     [demo_boundary 0 10 1 SKB_AFFINITY_TRAILING 0 2 SKB_AFFINITY_TRAILING 5,
      demo_boundary 10 50 2 SKB_AFFINITY_LEADING 4 1 SKB_AFFINITY_LEADING 1] =
   [Debug_render_line 0 200 0 105 caret_color (- 1),
    Debug_render_tri 0 105 (- 5) 105 0 110 caret2_color,
    Debug_render_tri 0 105 5 105 0 110 caret_color,
    Debug_render_text (- 3) 120 11 RENDER_ALIGN_END caret2_color ''TR'' 0,
    Debug_render_text 3 120 11 RENDER_ALIGN_START caret_color ''TR'' 5,
    Debug_render_line 10 200 10 105 caret_color (- 1),
    Debug_render_tri 10 105 5 105 10 110 caret2_color,
    Debug_render_tri 10 105 15 105 10 110 caret_color,
    Debug_render_text 7 135 11 RENDER_ALIGN_END caret2_color ''LE'' 4,
    Debug_render_text 13 120 11 RENDER_ALIGN_START caret_color ''LE'' 1]"
  by (simp add: draw_caret_details_def draw_caret_boundary_def demo_defs demo_boundary_def Let_def)

subsection \<open>Zoom at the cursor\<close>








subsection \<open>Paste, cut and copy\<close>

lemma clipboard_calls_empty:
  "selection_text_utf8 E tr (skb_editor_get_current_selection E tr) = [] \<Longrightarrow>
   clipboard_calls E tr = [Temp_alloc 1, Glfw_set_clipboard_string [], Temp_free]"
  by (simp add: clipboard_calls_def Let_def skb_editor_get_selection_text_utf8_count_def
      skb_editor_get_selection_text_utf8_def c_string_def)

lemma on_key_press_or_repeat_returns:
  assumes "\<forall>t. view t = view s \<longrightarrow> update_ime_rect E t \<noteq> None"
  shows "\<exists>s'. on_key_press_or_repeat E key mods s = Some s' \<and> view s' = view s"
proof -
  let ?t = "s\<lparr>allow_char := \<not> (key = GLFW_KEY_V \<and> mods AND GLFW_MOD_CONTROL \<noteq> 0),
          trace := trace s @ press_or_repeat_calls E key mods (trace s)\<rparr>"
  have "update_ime_rect E ?t \<noteq> None" using assms by simp
  then obtain s' where u: "update_ime_rect E ?t = Some s'" by auto
  then have "on_key_press_or_repeat E key mods s = Some s'"
    by (simp add: on_key_press_or_repeat_eq)
  moreover have "view s' = view s"
    using update_ime_rect_Some [OF u] by simp
  ultimately show ?thesis by blast
qed

lemma on_key_press_returns:
  assumes "\<forall>t. view t = view s \<longrightarrow> update_ime_rect E t \<noteq> None"
  shows "on_key_press E key mods s \<noteq> None"
proof -
  let ?t = "s\<lparr>allow_char := \<not> clears_gate key mods,
               trace := trace s @ press_calls E key mods (trace s)\<rparr>"
  have "update_ime_rect E ?t \<noteq> None" using assms by simp
  then show ?thesis by (simp add: on_key_press_eq)
qed

lemma testbed_on_key_returns:
  assumes "\<forall>t. view t = view s \<longrightarrow> update_ime_rect E t \<noteq> None"
  shows "testbed_on_key E s key action mods \<noteq> None"
proof -
  obtain s1 where s1: "on_key_press_or_repeat E key mods s = Some s1" and v: "view s1 = view s"
    using on_key_press_or_repeat_returns [OF assms] by blast
  have "on_key_press E key mods s \<noteq> None" "on_key_press E key mods s1 \<noteq> None"
    using on_key_press_returns [of s E] on_key_press_returns [of s1 E] assms v by simp_all
  then show ?thesis
    using s1 by (auto simp: testbed_on_key_def)
qed

lemma press_or_repeat_calls_letters:
  "press_or_repeat_calls E GLFW_KEY_C mods tr = []"
  "press_or_repeat_calls E GLFW_KEY_X mods tr = []"
  "mods AND GLFW_MOD_CONTROL \<noteq> 0 \<Longrightarrow>
     press_or_repeat_calls E GLFW_KEY_V mods tr = [Editor_paste_utf8 (glfwGetClipboardString E tr)]"
  by (simp_all add: press_or_repeat_calls_def movement_keys_def glfw_defs)

lemma press_calls_letters:
  "mods AND GLFW_MOD_CONTROL \<noteq> 0 \<Longrightarrow> press_calls E GLFW_KEY_C mods tr = clipboard_calls E tr"
  "mods AND GLFW_MOD_CONTROL \<noteq> 0 \<Longrightarrow>
     press_calls E GLFW_KEY_X mods tr = clipboard_calls E tr @ [Editor_cut]"
  "press_calls E GLFW_KEY_V mods tr = []"
  by (simp_all add: press_calls_def glfw_defs)

text \<open>
  Claim C9, as amended. The key handler has no branch that aborts: it returns whenever
  the conversion of the input rectangle is defined. With CONTROL held and a selection
  whose text is empty, copy makes no call to the editor and writes the empty string to
  the clipboard; cut does the same and then calls the cut of the editor; both close the
  gate on character events. Paste hands what the clipboard answers, be it empty or
  absent, to the paste of the editor.
\<close>

theorem clipboard_keys:
  assumes "mods AND GLFW_MOD_CONTROL \<noteq> 0"
    and "tr1 = trace s @ [Ime_set_input_rect (caret_screen_rect E (trace s) (view s))]"
  shows "((\<forall>t. view t = view s \<longrightarrow> update_ime_rect E t \<noteq> None) \<longrightarrow>
            testbed_on_key E s key action mods \<noteq> None)
       \<and> (testbed_on_key E s GLFW_KEY_C GLFW_PRESS mods = Some s'
            \<and> selection_text_utf8 E tr1 (skb_editor_get_current_selection E tr1) = [] \<longrightarrow>
            butlast (trace s') = tr1 @ [Temp_alloc 1, Glfw_set_clipboard_string [], Temp_free]
            \<and> \<not> allow_char s')
       \<and> (testbed_on_key E s GLFW_KEY_X GLFW_PRESS mods = Some s'
            \<and> selection_text_utf8 E tr1 (skb_editor_get_current_selection E tr1) = [] \<longrightarrow>
            butlast (trace s')
              = tr1 @ [Temp_alloc 1, Glfw_set_clipboard_string [], Temp_free, Editor_cut]
            \<and> \<not> allow_char s')
       \<and> (testbed_on_key E s GLFW_KEY_V GLFW_REPEAT mods = Some s' \<longrightarrow>
            butlast (trace s') = trace s @ [Editor_paste_utf8 (glfwGetClipboardString E (trace s))])
       \<and> (testbed_on_key E s GLFW_KEY_V GLFW_PRESS mods = Some s' \<longrightarrow>
            butlast (butlast (trace s'))
              = trace s @ [Editor_paste_utf8 (glfwGetClipboardString E (trace s))])"
proof (intro conjI impI; (elim conjE)?)
  assume "\<forall>t. view t = view s \<longrightarrow> update_ime_rect E t \<noteq> None"
  then show "testbed_on_key E s key action mods \<noteq> None"
    by (rule testbed_on_key_returns)
next
  assume k: "testbed_on_key E s GLFW_KEY_C GLFW_PRESS mods = Some s'"
    and e: "selection_text_utf8 E tr1 (skb_editor_get_current_selection E tr1) = []"
  show "butlast (trace s') = tr1 @ [Temp_alloc 1, Glfw_set_clipboard_string [], Temp_free]"
    using testbed_on_key_press_Some(1) [OF k] e assms
    by (simp add: press_or_repeat_calls_letters press_calls_letters clipboard_calls_empty
        butlast_append)
  show "\<not> allow_char s'"
    using testbed_on_key_allow_char(1) [OF k] assms(1) by (simp add: clears_gate_def)
next
  assume k: "testbed_on_key E s GLFW_KEY_X GLFW_PRESS mods = Some s'"
    and e: "selection_text_utf8 E tr1 (skb_editor_get_current_selection E tr1) = []"
  show "butlast (trace s')
          = tr1 @ [Temp_alloc 1, Glfw_set_clipboard_string [], Temp_free, Editor_cut]"
    using testbed_on_key_press_Some(1) [OF k] e assms
    by (simp add: press_or_repeat_calls_letters press_calls_letters clipboard_calls_empty
        butlast_append)
  show "\<not> allow_char s'"
    using testbed_on_key_allow_char(1) [OF k] assms(1) by (simp add: clears_gate_def)
next
  assume k: "testbed_on_key E s GLFW_KEY_V GLFW_REPEAT mods = Some s'"
  show "butlast (trace s') = trace s @ [Editor_paste_utf8 (glfwGetClipboardString E (trace s))]"
    using testbed_on_key_repeat_Some(1) [OF k] assms(1)
    by (simp add: press_or_repeat_calls_letters butlast_append)
next
  assume k: "testbed_on_key E s GLFW_KEY_V GLFW_PRESS mods = Some s'"
  show "butlast (butlast (trace s'))
          = trace s @ [Editor_paste_utf8 (glfwGetClipboardString E (trace s))]"
    using testbed_on_key_press_Some(1) [OF k] assms(1)
    by (simp add: press_or_repeat_calls_letters press_calls_letters butlast_append)
qed

text \<open>
  The theorem at work in the concrete environment, where the selection is empty and the
  clipboard holds \<open>xyz\<close>.
\<close>

lemma demo_rect_defined:
  "\<forall>t. view t = view demo_state \<longrightarrow> update_ime_rect demo_env t \<noteq> None"
  by (simp add: update_ime_rect_def cast_int32_def truncate_toward_zero_def demo_defs Let_def
      float_ops)

theorem clipboard_keys_witness:
  "testbed_on_key demo_env demo_state GLFW_KEY_C GLFW_PRESS GLFW_MOD_CONTROL \<noteq> None
   \<and> map_option trace (testbed_on_key demo_env demo_state GLFW_KEY_X GLFW_PRESS GLFW_MOD_CONTROL)
       = Some [Ime_set_input_rect \<lparr>rect_x = 400, rect_y = 116, rect_width = 0, rect_height = 20\<rparr>,
               Temp_alloc 1, Glfw_set_clipboard_string [], Temp_free, Editor_cut,
               Ime_set_input_rect \<lparr>rect_x = 400, rect_y = 116, rect_width = 0, rect_height = 20\<rparr>]
   \<and> map_option trace (testbed_on_key demo_env demo_state GLFW_KEY_V GLFW_REPEAT GLFW_MOD_CONTROL)
       = Some [Editor_paste_utf8 (Some ''xyz''),
               Ime_set_input_rect \<lparr>rect_x = 400, rect_y = 116, rect_width = 0, rect_height = 20\<rparr>]"
proof -
  have m: "GLFW_MOD_CONTROL AND GLFW_MOD_CONTROL \<noteq> 0"
    by (simp add: glfw_defs)
  note t = clipboard_keys [OF m refl, of demo_state demo_env]
  have "testbed_on_key demo_env demo_state GLFW_KEY_C GLFW_PRESS GLFW_MOD_CONTROL \<noteq> None"
    using t [of GLFW_KEY_C GLFW_PRESS] demo_rect_defined by blast
  moreover obtain sx where x: "testbed_on_key demo_env demo_state GLFW_KEY_X GLFW_PRESS GLFW_MOD_CONTROL = Some sx"
    using t [of GLFW_KEY_X GLFW_PRESS] demo_rect_defined by blast
  moreover have "butlast (trace sx)
      = [Ime_set_input_rect \<lparr>rect_x = 400, rect_y = 116, rect_width = 0, rect_height = 20\<rparr>,
         Temp_alloc 1, Glfw_set_clipboard_string [], Temp_free, Editor_cut]"
    using t [of _ _ sx] x
    by (simp add: demo_defs caret_screen_rect_def caret_at_def truncate_toward_zero_def
        caret_screen_x_def caret_screen_y_def caret_screen_width_def caret_screen_height_def)
  moreover obtain sv where v: "testbed_on_key demo_env demo_state GLFW_KEY_V GLFW_REPEAT GLFW_MOD_CONTROL = Some sv"
    using t [of GLFW_KEY_V GLFW_REPEAT] demo_rect_defined by blast
  moreover have "butlast (trace sv) = [Editor_paste_utf8 (Some ''xyz'')]"
    using t [of _ _ sv] v by (simp add: demo_defs)
  ultimately show ?thesis
    by (auto simp add: key_eval demo_defs glfw_defs)
qed

text \<open>
  Claim C9 as stated fails for copy: with nothing selected and \<open>xyz\<close> on the clipboard,
  CONTROL with C writes the empty string to the clipboard, which holds nothing afterwards.
\<close>

theorem copy_clears_clipboard_counterexample:
  "demo_clipboard [] = Some ''xyz''
   \<and> map_option trace (testbed_on_key demo_env demo_state GLFW_KEY_C GLFW_PRESS GLFW_MOD_CONTROL)
       = Some [Ime_set_input_rect \<lparr>rect_x = 400, rect_y = 116, rect_width = 0, rect_height = 20\<rparr>,
               Temp_alloc 1, Glfw_set_clipboard_string [], Temp_free,
               Ime_set_input_rect \<lparr>rect_x = 400, rect_y = 116, rect_width = 0, rect_height = 20\<rparr>]
   \<and> demo_clipboard
         [Ime_set_input_rect \<lparr>rect_x = 400, rect_y = 116, rect_width = 0, rect_height = 20\<rparr>,
          Temp_alloc 1, Glfw_set_clipboard_string [], Temp_free,
          Ime_set_input_rect \<lparr>rect_x = 400, rect_y = 116, rect_width = 0, rect_height = 20\<rparr>]
       = Some []"
  by (simp add: key_eval demo_defs glfw_defs)

end
